theory Spec2Isabelle
  imports Complex_Main "HOL-Library.Sublist" "HOL-Library.AList"
begin

section \<open>Python strings\<close>

text \<open>
  A Python \<open>str\<close> is modelled as a \<open>string\<close>, one \<open>char\<close> per code point below 256
  (Latin-1). \<open>str.strip()\<close> removes the characters for which \<open>str.isspace()\<close> holds;
  below 256 these are the twelve listed in \<open>py_isspace\<close>. Case mapping follows the
  Unicode tables on this range: the upper-case letters are \<open>A\<close> to \<open>Z\<close>, U+00C0 to
  U+00D6 and U+00D8 to U+00DE, each with its lower-case letter 32 code points above;
  besides these letters U+00AA, U+00B5, U+00BA, U+00DF and U+00FF are cased. \<open>lower\<close>
  maps the range into itself. \<open>title\<close> does not: the title case of U+00DF is the two
  letters \<open>Ss\<close>, and the title case of U+00B5 and of U+00FF (U+039C and U+0178) lies
  above the range; \<open>py_title_char\<close> leaves these two characters as they are, and a
  statement about a title-cased text is made for texts without them.
\<close>

definition py_isspace :: "char \<Rightarrow> bool" where
  "py_isspace c = (c \<in> set [CHR 0x09, CHR 0x0A, CHR 0x0B, CHR 0x0C, CHR 0x0D,
                             CHR 0x1C, CHR 0x1D, CHR 0x1E, CHR 0x1F, CHR 0x20,
                             CHR 0x85, CHR 0xA0])"

definition py_strip :: "string \<Rightarrow> string" where
  "py_strip s = rev (dropWhile py_isspace (rev (dropWhile py_isspace s)))"

definition upper_letters :: string where
  "upper_letters = ''ABCDEFGHIJKLMNOPQRSTUVWXYZ'' @
     [CHR 0xC0, CHR 0xC1, CHR 0xC2, CHR 0xC3, CHR 0xC4, CHR 0xC5,
      CHR 0xC6, CHR 0xC7, CHR 0xC8, CHR 0xC9, CHR 0xCA, CHR 0xCB,
      CHR 0xCC, CHR 0xCD, CHR 0xCE, CHR 0xCF, CHR 0xD0, CHR 0xD1,
      CHR 0xD2, CHR 0xD3, CHR 0xD4, CHR 0xD5, CHR 0xD6, CHR 0xD8,
      CHR 0xD9, CHR 0xDA, CHR 0xDB, CHR 0xDC, CHR 0xDD, CHR 0xDE]"

definition lower_letters :: string where
  "lower_letters = ''abcdefghijklmnopqrstuvwxyz'' @
     [CHR 0xE0, CHR 0xE1, CHR 0xE2, CHR 0xE3, CHR 0xE4, CHR 0xE5,
      CHR 0xE6, CHR 0xE7, CHR 0xE8, CHR 0xE9, CHR 0xEA, CHR 0xEB,
      CHR 0xEC, CHR 0xED, CHR 0xEE, CHR 0xEF, CHR 0xF0, CHR 0xF1,
      CHR 0xF2, CHR 0xF3, CHR 0xF4, CHR 0xF5, CHR 0xF6, CHR 0xF8,
      CHR 0xF9, CHR 0xFA, CHR 0xFB, CHR 0xFC, CHR 0xFD, CHR 0xFE]"

definition py_lower_char :: "char \<Rightarrow> char" where
  "py_lower_char c = (case map_of (zip upper_letters lower_letters) c of Some d \<Rightarrow> d | None \<Rightarrow> c)"

text \<open>The title case of one character; it differs from the upper case at U+00DF only.\<close>

definition py_title_char :: "char \<Rightarrow> string" where
  "py_title_char c =
     (if c = CHR 0xDF then ''Ss''
      else (case map_of (zip lower_letters upper_letters) c of Some d \<Rightarrow> [d] | None \<Rightarrow> [c]))"

definition py_is_cased :: "char \<Rightarrow> bool" where
  "py_is_cased c = (c \<in> set upper_letters \<or> c \<in> set lower_letters
                    \<or> c \<in> set [CHR 0xAA, CHR 0xB5, CHR 0xBA, CHR 0xDF, CHR 0xFF])"

definition py_lower :: "string \<Rightarrow> string" where
  "py_lower s = map py_lower_char s"

text \<open>
  \<open>str.title()\<close>: a character is replaced by its title case when the character before it
  is not cased (or there is none) and by its lower case otherwise; the flag of the loop
  is the first argument.
\<close>

fun title_from :: "bool \<Rightarrow> string \<Rightarrow> string" where
  "title_from previous_is_cased [] = []"
| "title_from previous_is_cased (c # cs) =
     (if previous_is_cased then [py_lower_char c] else py_title_char c)
       @ title_from (py_is_cased c) cs"

definition py_title :: "string \<Rightarrow> string" where
  "py_title s = title_from False s"

text \<open>The texts whose title case stays in the range.\<close>

definition title_in_range :: "string \<Rightarrow> bool" where
  "title_in_range s = (CHR 0xB5 \<notin> set s \<and> CHR 0xFF \<notin> set s)"

text \<open>\<open>w in s\<close> on two strings is the contiguous-substring test, \<^const>\<open>sublist\<close>.\<close>

definition py_in :: "string \<Rightarrow> string \<Rightarrow> bool" where
  "py_in w s = sublist w s"

text \<open>\<open>any(w in s for w in ws)\<close>.\<close>

definition any_in :: "string list \<Rightarrow> string \<Rightarrow> bool" where
  "any_in ws s = list_ex (\<lambda>w. py_in w s) ws"

section \<open>Exceptions\<close>

text \<open>
  The exceptions the program meets. \<open>KeyboardInterrupt\<close> derives from
  \<open>BaseException\<close> only, so \<open>except Exception\<close> does not catch it; every other
  constructor is a subclass of \<open>Exception\<close>. \<open>RequestException\<close> stands for
  \<open>requests.exceptions.RequestException\<close> and its subclasses (connection errors,
  timeouts, \<open>HTTPError\<close>).
\<close>

datatype exn = ValueError | KeyError | AttributeError | RequestException | OtherError
  | KeyboardInterrupt

definition is_Exception :: "exn \<Rightarrow> bool" where
  "is_Exception e = (e \<noteq> KeyboardInterrupt)"

section \<open>database.py: the raw tables\<close>

text \<open>
  A cell of a \<open>TEXT\<close> column is a string or \<open>NULL\<close> (\<open>None\<close>). A table is the list of
  its rows in insertion order. Both raw tables have a two-column primary key; SQLite
  compares key cells with \<open>NULL\<close> distinct from everything, \<open>NULL\<close> included.
\<close>

record merojob_row =
  m_id :: "string option"
  m_title :: "string option"
  m_company :: "string option"
  m_location :: "string option"
  m_categories :: "string option"
  m_deadline :: "string option"
  m_job_level :: "string option"
  m_vacancies :: "string option"
  m_salary_min :: "string option"
  m_salary_max :: "string option"
  m_currency :: "string option"
  m_skills :: "string option"
  m_job_url :: "string option"
  m_scraped_at :: "string option"

record kumari_row =
  k_job_id :: "string option"
  k_job_title :: "string option"
  k_company :: "string option"
  k_link :: "string option"
  k_salary :: "string option"
  k_experience :: "string option"
  k_industry :: "string option"
  k_job_level :: "string option"
  k_education :: "string option"
  k_scraped_at :: "string option"

type_synonym pk = "string option \<times> string option"

definition merojob_pk :: "merojob_row \<Rightarrow> pk" where
  "merojob_pk r = (m_id r, m_scraped_at r)"

definition kumari_pk :: "kumari_row \<Rightarrow> pk" where
  "kumari_pk r = (k_job_id r, k_scraped_at r)"

definition pk_collides :: "pk \<Rightarrow> pk \<Rightarrow> bool" where
  "pk_collides a b = (fst a \<noteq> None \<and> snd a \<noteq> None \<and> a = b)"

text \<open>
  \<open>INSERT OR IGNORE INTO t VALUES (...)\<close>: the row is appended unless a stored row has
  its primary key, in which case the statement changes nothing and reports no error.
\<close>

definition insert_or_ignore :: "('r \<Rightarrow> pk) \<Rightarrow> 'r \<Rightarrow> 'r list \<Rightarrow> exn + 'r list" where
  "insert_or_ignore key row tbl =
     (if list_ex (\<lambda>r. pk_collides (key r) (key row)) tbl then Inr tbl else Inr (tbl @ [row]))"

text \<open>
  A Python dict is a map; \<open>d.get(k, default)\<close> is \<open>dict_get\<close>. A value of a scraped
  MeroJob dict is \<open>None\<close> or a string or number, the latter two given by their \<open>str()\<close>,
  which is also the text SQLite stores for them in a \<open>TEXT\<close> column.
\<close>

definition dict_get :: "('k \<rightharpoonup> 'v) \<Rightarrow> 'k \<Rightarrow> 'v \<Rightarrow> 'v" where
  "dict_get d k dflt = (case d k of None \<Rightarrow> dflt | Some v \<Rightarrow> v)"

definition py_str :: "string option \<Rightarrow> string" where
  "py_str v = (case v of None \<Rightarrow> ''None'' | Some s \<Rightarrow> s)"

type_synonym mero_job = "string \<rightharpoonup> string option"

definition merojob_values :: "mero_job \<Rightarrow> string \<Rightarrow> merojob_row" where
  "merojob_values job scraped_at =
     \<lparr> m_id = Some (py_str (dict_get job ''id'' (Some ''''))),
       m_title = dict_get job ''title'' (Some ''N/A''),
       m_company = dict_get job ''company'' (Some ''N/A''),
       m_location = dict_get job ''location'' (Some ''N/A''),
       m_categories = dict_get job ''categories'' (Some ''N/A''),
       m_deadline = dict_get job ''deadline'' (Some ''N/A''),
       m_job_level = dict_get job ''job_level'' (Some ''N/A''),
       m_vacancies = Some (py_str (dict_get job ''vacancies'' (Some ''N/A''))),
       m_salary_min = Some (py_str (dict_get job ''salary_min'' (Some ''N/A''))),
       m_salary_max = Some (py_str (dict_get job ''salary_max'' (Some ''N/A''))),
       m_currency = dict_get job ''currency'' (Some ''N/A''),
       m_skills = dict_get job ''skills'' (Some ''''),
       m_job_url = dict_get job ''job_url'' (Some ''''),
       m_scraped_at = Some scraped_at \<rparr>"

text \<open>
  The loop of \<open>save_merojob_data\<close>: the \<open>try\<close> around \<open>execute\<close> skips a job whose
  statement raises an \<open>Exception\<close>. \<open>scraped_at\<close> is \<open>datetime.now().isoformat()\<close>,
  read once per call; it is an argument here. The state is the table.
\<close>

fun save_merojob_data :: "mero_job list \<Rightarrow> string \<Rightarrow> merojob_row list \<Rightarrow> exn + merojob_row list" where
  "save_merojob_data [] scraped_at tbl = Inr tbl"
| "save_merojob_data (job # jobs_list) scraped_at tbl =
     (case insert_or_ignore merojob_pk (merojob_values job scraped_at) tbl of
        Inr tbl' \<Rightarrow> save_merojob_data jobs_list scraped_at tbl'
      | Inl e \<Rightarrow> if is_Exception e then save_merojob_data jobs_list scraped_at tbl else Inl e)"

text \<open>
  A partial record of the KumariJob scraper is a dict from field name to string;
  \<open>jobs_dict\<close> keeps its insertion order, so it is an association list from job id to
  record.
\<close>

type_synonym partial_record = "string \<rightharpoonup> string"

definition kumari_values :: "string \<Rightarrow> partial_record \<Rightarrow> string \<Rightarrow> kumari_row" where
  "kumari_values job_id job scraped_at =
     \<lparr> k_job_id = Some job_id,
       k_job_title = Some (dict_get job ''Job Title'' ''N/A''),
       k_company = Some (dict_get job ''Company'' ''N/A''),
       k_link = Some (dict_get job ''Link'' ''N/A''),
       k_salary = Some (dict_get job ''Salary'' ''N/A''),
       k_experience = Some (dict_get job ''Experience'' ''N/A''),
       k_industry = Some (dict_get job ''Industry'' ''N/A''),
       k_job_level = Some (dict_get job ''Job Level'' ''N/A''),
       k_education = Some (dict_get job ''Education'' ''N/A''),
       k_scraped_at = Some scraped_at \<rparr>"

fun save_kumari_data :: "(string \<times> partial_record) list \<Rightarrow> string \<Rightarrow> kumari_row list \<Rightarrow> exn + kumari_row list" where
  "save_kumari_data [] scraped_at tbl = Inr tbl"
| "save_kumari_data ((job_id, job) # jobs_dict) scraped_at tbl =
     (case insert_or_ignore kumari_pk (kumari_values job_id job scraped_at) tbl of
        Inr tbl' \<Rightarrow> save_kumari_data jobs_dict scraped_at tbl'
      | Inl e \<Rightarrow> if is_Exception e then save_kumari_data jobs_dict scraped_at tbl else Inl e)"

section \<open>clean\_data.py: helper functions\<close>

subsection \<open>Salary extraction\<close>

definition is_digit :: "char \<Rightarrow> bool" where
  "is_digit c = (c \<in> set ''0123456789'')"

text \<open>The character class \<open>[\d,]\<close> of the pattern.\<close>

definition salary_run_char :: "char \<Rightarrow> bool" where
  "salary_run_char c = (is_digit c \<or> c = CHR '','')"

text \<open>
  \<open>re.findall\<close> for a pattern \<open>[...]+\<close>, the class given as a predicate: scan from the
  left; at a character of the class take the longest run and go on after it, otherwise
  go on at the next character.
\<close>

function findall_runs :: "(char \<Rightarrow> bool) \<Rightarrow> string \<Rightarrow> string list" where
  "findall_runs p [] = []"
| "findall_runs p (c # cs) =
     (if p c then takeWhile p (c # cs) # findall_runs p (dropWhile p cs)
      else findall_runs p cs)"
  by pat_completeness auto
termination
  by (relation "measure (\<lambda>(p, s). length s)") (auto simp: length_dropWhile_le le_imp_less_Suc)

text \<open>\<open>s.replace(',', '')\<close>.\<close>

definition remove_commas :: "string \<Rightarrow> string" where
  "remove_commas s = filter (\<lambda>c. c \<noteq> CHR '','') s"

definition digit_value :: "char \<Rightarrow> nat" where
  "digit_value c = (case map_of (zip ''0123456789'' [0, 1, 2, 3, 4, 5, 6, 7, 8, 9]) c of
                      Some d \<Rightarrow> d | None \<Rightarrow> 0)"

definition nat_of_digits :: "string \<Rightarrow> nat" where
  "nat_of_digits s = foldl (\<lambda>n c. 10 * n + digit_value c) 0 s"

text \<open>
  A Python float that is not NaN: a finite double, given by the real number it denotes,
  or one of the two infinities. NaN is the null of a numeric column and is \<open>None\<close> in a
  cell. The comparisons are those of the floats.
\<close>

datatype pyfloat = Finite real | PlusInf | MinusInf

instantiation pyfloat :: linorder
begin

fun less_eq_pyfloat :: "pyfloat \<Rightarrow> pyfloat \<Rightarrow> bool" where
  "less_eq_pyfloat MinusInf y = True"
| "less_eq_pyfloat (Finite a) (Finite b) = (a \<le> b)"
| "less_eq_pyfloat (Finite a) PlusInf = True"
| "less_eq_pyfloat (Finite a) MinusInf = False"
| "less_eq_pyfloat PlusInf PlusInf = True"
| "less_eq_pyfloat PlusInf (Finite b) = False"
| "less_eq_pyfloat PlusInf MinusInf = False"

definition less_pyfloat :: "pyfloat \<Rightarrow> pyfloat \<Rightarrow> bool" where
  "less_pyfloat x y = (x \<le> y \<and> \<not> y \<le> x)"

instance
proof
  fix x y z :: pyfloat
  show "(x < y) = (x \<le> y \<and> \<not> y \<le> x)" by (simp add: less_pyfloat_def)
  show "x \<le> x" by (cases x) simp_all
  show "x \<le> y \<Longrightarrow> y \<le> z \<Longrightarrow> x \<le> z" by (cases x; cases y; cases z) simp_all
  show "x \<le> y \<Longrightarrow> y \<le> x \<Longrightarrow> x = y" by (cases x; cases y) simp_all
  show "x \<le> y \<or> y \<le> x" by (cases x; cases y) auto
qed

end

text \<open>
  The double nearest to a natural number, as the correctly rounded conversion of
  \<open>float\<close> gives it. A double has a significand of 53 bits: a number below \<open>2^53\<close> is
  a double; a larger one of \<open>53 + e\<close> bits is rounded to a multiple of \<open>2^e\<close>, to the
  nearer of the two neighbours and to the one with the even significand when it lies
  half-way; a result of \<open>2^1024\<close> or more is beyond the largest double and is \<open>inf\<close>.
\<close>

fun bit_length :: "nat \<Rightarrow> nat" where
  "bit_length n = (if n = 0 then 0 else Suc (bit_length (n div 2)))"

declare bit_length.simps [simp del]

definition double_of_nat :: "nat \<Rightarrow> pyfloat" where
  "double_of_nat n =
     (if n < 2 ^ 53 then Finite (real n)
      else
        (let e = bit_length n - 53;
             q = n div 2 ^ e;
             r = n mod 2 ^ e;
             half = 2 ^ (e - 1);
             q' = (if r > half \<or> (r = half \<and> odd q) then q + 1 else q)
         in if q' * 2 ^ e \<ge> 2 ^ 1024 then PlusInf else Finite (real (q' * 2 ^ e))))"

text \<open>
  \<open>float(s)\<close> on the strings that reach it in this program: what is left of a run of
  digits and commas once the commas are removed, so digits only (lemma
  \<open>remove_commas_run_digits\<close>). The empty string raises \<open>ValueError\<close>; a digit string
  gives the double nearest to its decimal value, \<open>inf\<close> when that is beyond the
  doubles, and never raises.
\<close>

definition py_float :: "string \<Rightarrow> exn + pyfloat" where
  "py_float s = (if s \<noteq> [] \<and> list_all is_digit s then Inr (double_of_nat (nat_of_digits s))
                 else Inl ValueError)"

text \<open>
  The argument is \<open>None\<close> when the cell is not a \<open>str\<close>. The \<open>try\<close> catches
  \<open>ValueError\<close> only; any other exception would leave the function.
\<close>

definition extract_salary_min :: "string option \<Rightarrow> exn + pyfloat option" where
  "extract_salary_min salary_str =
     (case salary_str of
        None \<Rightarrow> Inr None
      | Some s \<Rightarrow>
          (let nums = findall_runs salary_run_char s in
           if nums \<noteq> [] then
             (case py_float (remove_commas (nums ! 0)) of
                Inr v \<Rightarrow> Inr (Some v)
              | Inl e \<Rightarrow> if e = ValueError then Inr None else Inl e)
           else Inr None))"

definition extract_salary_max :: "string option \<Rightarrow> exn + pyfloat option" where
  "extract_salary_max salary_str =
     (case salary_str of
        None \<Rightarrow> Inr None
      | Some s \<Rightarrow>
          (let nums = findall_runs salary_run_char s in
           if length nums > 1 then
             (case py_float (remove_commas (nums ! 1)) of
                Inr v \<Rightarrow> Inr (Some v)
              | Inl e \<Rightarrow> if e = ValueError then Inr None else Inl e)
           else Inr None))"

text \<open>
  The words of the specification, to compare the scan with: the runs of digits and
  commas of a string are the non-empty pieces left when the string is cut at every other
  character, and the number of a run is the float of the decimal value of its digits,
  null when it has none.
\<close>

fun split_at :: "(char \<Rightarrow> bool) \<Rightarrow> string \<Rightarrow> string list" where
  "split_at sep [] = [[]]"
| "split_at sep (c # cs) =
     (if sep c then [] # split_at sep cs
      else (case split_at sep cs of w # ws \<Rightarrow> (c # w) # ws | [] \<Rightarrow> [[c]]))"

definition digit_comma_runs :: "string \<Rightarrow> string list" where
  "digit_comma_runs s = filter (\<lambda>w. w \<noteq> []) (split_at (\<lambda>c. \<not> salary_run_char c) s)"

definition number_of_run :: "string \<Rightarrow> pyfloat option" where
  "number_of_run r =
     (if list_ex is_digit r then Some (double_of_nat (nat_of_digits (filter is_digit r)))
      else None)"

subsection \<open>Job level\<close>

text \<open>
  Placeholder, in the words of the specification: the empty string, a whitespace-only
  string, or the sentinel \<open>N/A\<close> in any case, \<open>na\<close> included.
\<close>

definition spec_placeholder :: "string \<Rightarrow> bool" where
  "spec_placeholder s = (s = [] \<or> list_all py_isspace s \<or> py_lower s \<in> set [''n/a'', ''na''])"

definition standardize_job_level :: "string option \<Rightarrow> string" where
  "standardize_job_level level_str =
     (case level_str of
        None \<Rightarrow> ''Not Specified''
      | Some s \<Rightarrow>
          (let level_lower = py_lower s in
           if any_in [''entry'', ''junior'', ''fresher'', ''fresh'', ''graduate''] level_lower
             then ''Entry Level''
           else if any_in [''mid'', ''intermediate'', ''associate''] level_lower
             then ''Mid Level''
           else if any_in [''senior'', ''sr.'', ''lead'', ''principal''] level_lower
             then ''Senior Level''
           else if any_in [''manager'', ''head'', ''director'', ''vp'', ''chief'', ''ceo'', ''cto'']
                     level_lower
             then ''Management''
           else if level_lower \<in> set [''n/a'', ''na'', '''', ''not specified'']
             then ''Not Specified''
           else py_title (py_strip s)))"

subsection \<open>Location\<close>

definition mapping :: "(string \<times> string) list" where
  "mapping =
     [(''KTM'', ''Kathmandu''), (''Ktm'', ''Kathmandu''), (''ktm'', ''Kathmandu''),
      (''Kathmandu Valley'', ''Kathmandu''),
      (''PKR'', ''Pokhara''), (''PKR.'', ''Pokhara''), (''Pkr'', ''Pokhara''),
      (''BKT'', ''Bhaktapur''), (''Bkt'', ''Bhaktapur''),
      (''LLT'', ''Lalitpur''), (''Llt'', ''Lalitpur''), (''Patan'', ''Lalitpur''),
      (''BRT'', ''Birgunj''), (''BTW'', ''Butwal'')]"

text \<open>\<open>mapping.get(loc, loc)\<close> is the lookup with the key itself as default.\<close>

definition clean_location :: "string option \<Rightarrow> string" where
  "clean_location loc0 =
     (case loc0 of
        None \<Rightarrow> ''Unknown''
      | Some l \<Rightarrow>
          (let loc = py_strip l in
           if loc = [] \<or> py_lower loc \<in> set [''n/a'', ''na'', ''''] then ''Unknown''
           else (case map_of mapping loc of Some city \<Rightarrow> city | None \<Rightarrow> loc)))"

section \<open>clean\_data.py: clean\_and\_merge\<close>

text \<open>
  The library functions whose results the program only passes on are parameters:
  \<open>pd.to_numeric\<close> and \<open>pd.to_datetime\<close> with \<open>errors='coerce'\<close>, the two
  \<open>strftime\<close> formats, and \<open>.dt.date.astype(str)\<close>. \<open>'t\<close> is the type of a parsed
  timestamp; a null, NaN or NaT cell is \<open>None\<close>.
\<close>

record 't pandas =
  to_numeric :: "string option \<Rightarrow> pyfloat option"
  to_datetime :: "string option \<Rightarrow> 't option"
  strftime_ymd :: "'t \<Rightarrow> string"
  strftime_ymd_hms :: "'t \<Rightarrow> string"
  date_astype_str :: "'t option \<Rightarrow> string"

text \<open>Operations on one cell of a column: the \<open>.str\<close> methods give null on a cell that is
  not a string.\<close>

definition str_strip :: "string option \<Rightarrow> string option" where
  "str_strip c = map_option py_strip c"

definition str_title :: "string option \<Rightarrow> string option" where
  "str_title c = map_option py_title c"

definition fillna :: "'a \<Rightarrow> 'a option \<Rightarrow> 'a option" where
  "fillna v c = (case c of None \<Rightarrow> Some v | Some x \<Rightarrow> Some x)"

definition replace_value :: "'a \<Rightarrow> 'a \<Rightarrow> 'a option \<Rightarrow> 'a option" where
  "replace_value old new c = (if c = Some old then Some new else c)"

definition astype_str :: "string option \<Rightarrow> string option" where
  "astype_str c = Some (py_str c)"

definition str_concat :: "string \<Rightarrow> string option \<Rightarrow> string option" where
  "str_concat pre c = map_option (\<lambda>s. pre @ s) c"

text \<open>
  Each cleaned frame starts as \<open>pd.DataFrame()\<close>, without rows, and gets its columns
  one assignment at a time. A scalar assigned to a frame without rows makes a column
  without cells (the scalar is broadcast over an index of length 0); the first Series
  assigned then gives the frame its index, and the columns that exist are reindexed to
  it and filled with null. \<open>source\<close> is assigned first, as a scalar, so its cells are
  null in every row; the scalars assigned after \<open>job_id\<close> fill every row.
\<close>

definition scalar_before_rows :: "'a \<Rightarrow> 'a option" where
  "scalar_before_rows v = None"

definition scalar_column :: "'a \<Rightarrow> 'a option" where
  "scalar_column v = Some v"

record 'd job_row =
  source :: "string option"
  job_id :: "string option"
  title :: "string option"
  company :: "string option"
  location :: "string option"
  category :: "string option"
  job_level :: "string option"
  skills :: "string option"
  salary_min :: "pyfloat option"
  salary_max :: "pyfloat option"
  currency :: "string option"
  deadline :: 'd
  scraped_at :: 'd
  job_url :: "string option"
  experience :: "string option"
  education :: "string option"

record stored_row = "string job_row" +
  scrape_date :: string

definition mero_clean_row :: "'t pandas \<Rightarrow> merojob_row \<Rightarrow> ('t option) job_row" where
  "mero_clean_row pd r =
     \<lparr> source = scalar_before_rows ''merojob'',
       job_id = str_concat ''mj_'' (astype_str (m_id r)),
       title = str_title (str_strip (m_title r)),
       company = fillna ''Unknown Company'' (str_strip (m_company r)),
       location = Some (clean_location (m_location r)),
       category = replace_value '''' ''Unknown'' (fillna ''Unknown'' (m_categories r)),
       job_level = Some (standardize_job_level (m_job_level r)),
       skills = fillna '''' (m_skills r),
       salary_min = to_numeric pd (m_salary_min r),
       salary_max = to_numeric pd (m_salary_max r),
       currency = fillna ''NPR'' (m_currency r),
       deadline = to_datetime pd (m_deadline r),
       scraped_at = to_datetime pd (m_scraped_at r),
       job_url = m_job_url r,
       experience = scalar_column ''N/A'',
       education = scalar_column ''N/A'' \<rparr>"

definition mero_clean :: "'t pandas \<Rightarrow> merojob_row list \<Rightarrow> ('t option) job_row list" where
  "mero_clean pd mero = map (mero_clean_row pd) mero"

text \<open>\<open>Series.apply(f)\<close> calls \<open>f\<close> on the cells in order; an exception of \<open>f\<close> ends it.\<close>

fun series_apply :: "('a \<Rightarrow> exn + 'b) \<Rightarrow> 'a list \<Rightarrow> exn + 'b list" where
  "series_apply f [] = Inr []"
| "series_apply f (x # xs) =
     (case f x of
        Inl e \<Rightarrow> Inl e
      | Inr y \<Rightarrow> (case series_apply f xs of Inl e \<Rightarrow> Inl e | Inr ys \<Rightarrow> Inr (y # ys)))"

definition kumari_clean_row ::
  "'t pandas \<Rightarrow> kumari_row \<Rightarrow> pyfloat option \<Rightarrow> pyfloat option \<Rightarrow> ('t option) job_row" where
  "kumari_clean_row pd r smin smax =
     \<lparr> source = scalar_before_rows ''kumarijob'',
       job_id = str_concat ''kj_'' (astype_str (k_job_id r)),
       title = str_title (str_strip (k_job_title r)),
       company = fillna ''Unknown Company'' (str_strip (k_company r)),
       location = scalar_column ''Kathmandu'',
       category = replace_value '''' ''Unknown'' (fillna ''Unknown'' (k_industry r)),
       job_level = Some (standardize_job_level (k_job_level r)),
       skills = scalar_column '''',
       salary_min = smin,
       salary_max = smax,
       currency = scalar_column ''NPR'',
       deadline = None,
       scraped_at = to_datetime pd (k_scraped_at r),
       job_url = k_link r,
       experience = fillna ''N/A'' (k_experience r),
       education = fillna ''N/A'' (k_education r) \<rparr>"

definition kumari_clean :: "'t pandas \<Rightarrow> kumari_row list \<Rightarrow> exn + ('t option) job_row list" where
  "kumari_clean pd kumari =
     (case series_apply extract_salary_min (map k_salary kumari) of
        Inl e \<Rightarrow> Inl e
      | Inr mins \<Rightarrow>
          (case series_apply extract_salary_max (map k_salary kumari) of
             Inl e \<Rightarrow> Inl e
           | Inr maxs \<Rightarrow>
               Inr (map (\<lambda>(r, smin, smax). kumari_clean_row pd r smin smax)
                        (zip kumari (zip mins maxs)))))"

text \<open>Quality step 1: keep the rows whose title is there, not blank and not \<open>N/A\<close>.\<close>

definition has_title :: "('d, 'm) job_row_scheme \<Rightarrow> bool" where
  "has_title r = (case title r of None \<Rightarrow> False | Some t \<Rightarrow> py_strip t \<noteq> [] \<and> t \<noteq> ''N/A'')"

text \<open>
  Quality step 2: \<open>drop_duplicates(subset=[...])\<close> keeps, of the rows with equal cells in
  the subset, the first; two null cells count as equal. The first argument holds the keys
  met so far.
\<close>

definition subset_key ::
  "('d, 'm) job_row_scheme \<Rightarrow> string option \<times> string option \<times> string option" where
  "subset_key r = (title r, company r, source r)"

fun drop_duplicates_from :: "'k list \<Rightarrow> ('r \<Rightarrow> 'k) \<Rightarrow> 'r list \<Rightarrow> 'r list" where
  "drop_duplicates_from seen key [] = []"
| "drop_duplicates_from seen key (r # rs) =
     (if key r \<in> set seen then drop_duplicates_from seen key rs
      else r # drop_duplicates_from (key r # seen) key rs)"

definition drop_duplicates :: "('r \<Rightarrow> 'k) \<Rightarrow> 'r list \<Rightarrow> 'r list" where
  "drop_duplicates key df = drop_duplicates_from [] key df"

text \<open>Quality step 3: \<open>df.loc[df[col] > 10_000_000, col] = None\<close>; a null cell compares
  false.\<close>

definition cap :: "pyfloat option \<Rightarrow> pyfloat option" where
  "cap v = (case v of None \<Rightarrow> None
            | Some x \<Rightarrow> if x > Finite 10000000 then None else Some x)"

definition cap_salary_min :: "'d job_row list \<Rightarrow> 'd job_row list" where
  "cap_salary_min df = map (\<lambda>r. r\<lparr>salary_min := cap (salary_min r)\<rparr>) df"

definition cap_salary_max :: "'d job_row list \<Rightarrow> 'd job_row list" where
  "cap_salary_max df = map (\<lambda>r. r\<lparr>salary_max := cap (salary_max r)\<rparr>) df"

text \<open>Steps 4 and 5: the date column and the two timestamp columns as text.\<close>

definition finalize_row :: "'t pandas \<Rightarrow> ('t option) job_row \<Rightarrow> stored_row" where
  "finalize_row pd r =
     \<lparr> source = source r, job_id = job_id r, title = title r, company = company r,
       location = location r, category = category r, job_level = job_level r,
       skills = skills r, salary_min = salary_min r, salary_max = salary_max r,
       currency = currency r,
       deadline = (case deadline r of Some x \<Rightarrow> strftime_ymd pd x | None \<Rightarrow> ''''),
       scraped_at = (case scraped_at r of Some x \<Rightarrow> strftime_ymd_hms pd x | None \<Rightarrow> ''''),
       job_url = job_url r, experience = experience r, education = education r,
       scrape_date = date_astype_str pd (scraped_at r) \<rparr>"

text \<open>
  The three quality steps on the concatenated frame, and the whole function on the two
  raw tables as loaded (a table that cannot be read is loaded as empty). The result is
  the frame returned, which is also what replaces \<open>jobs_clean\<close> unless both raw tables
  are empty.
\<close>

definition quality_steps :: "'d job_row list \<Rightarrow> 'd job_row list" where
  "quality_steps df =
     cap_salary_max (cap_salary_min (drop_duplicates subset_key (filter has_title df)))"

definition clean_and_merge :: "'t pandas \<Rightarrow> merojob_row list \<Rightarrow> kumari_row list \<Rightarrow> exn + stored_row list" where
  "clean_and_merge pd mero kumari =
     (case (if kumari \<noteq> [] then map_sum id (\<lambda>f. [f]) (kumari_clean pd kumari) else Inr []) of
        Inl e \<Rightarrow> Inl e
      | Inr kumari_frames \<Rightarrow>
          (let cleaned_frames = (if mero \<noteq> [] then [mero_clean pd mero] else []) @ kumari_frames in
           if cleaned_frames = [] then Inr []
           else Inr (map (finalize_row pd) (quality_steps (concat cleaned_frames)))))"

text \<open>
  The frame that \<open>kumari_clean\<close> builds when no cell raises; lemma
  \<open>kumari_clean_frame\<close> shows that none does.
\<close>

definition kumari_frame :: "'t pandas \<Rightarrow> kumari_row list \<Rightarrow> ('t option) job_row list" where
  "kumari_frame pd kumari =
     map (\<lambda>r. kumari_clean_row pd r
                (case extract_salary_min (k_salary r) of Inr v \<Rightarrow> v | Inl e \<Rightarrow> None)
                (case extract_salary_max (k_salary r) of Inr v \<Rightarrow> v | Inl e \<Rightarrow> None))
         kumari"

subsection \<open>Inputs for the examples\<close>

text \<open>
  An instance of the library parameters, for evaluating the functions on concrete
  tables: a timestamp is its text, a number is a digit string.
\<close>

definition text_pandas :: "string pandas" where
  "text_pandas =
     \<lparr> to_numeric = (\<lambda>c. case c of None \<Rightarrow> None
                           | Some s \<Rightarrow> (case py_float s of Inr v \<Rightarrow> Some v | Inl e \<Rightarrow> None)),
       to_datetime = (\<lambda>c. c),
       strftime_ymd = (\<lambda>t. take 10 t),
       strftime_ymd_hms = (\<lambda>t. t),
       date_astype_str = (\<lambda>c. case c of None \<Rightarrow> ''NaT'' | Some t \<Rightarrow> take 10 t) \<rparr>"

text \<open>
  The end-to-end scenario of the specification as a row of \<open>kumari_raw\<close>, the table with
  a salary string: id 42, the title with blanks around it, an empty company, level
  \<open>fresher\<close>. The salary string is the argument.
\<close>

definition scenario_row :: "string \<Rightarrow> kumari_row" where
  "scenario_row salary_text =
     \<lparr> k_job_id = Some ''42'', k_job_title = Some '' backend developer '',
       k_company = Some '''', k_link = Some ''N/A'', k_salary = Some salary_text,
       k_experience = Some ''N/A'', k_industry = Some ''N/A'', k_job_level = Some ''fresher'',
       k_education = Some ''N/A'', k_scraped_at = Some ''2026-01-05T09:30:00'' \<rparr>"

text \<open>
  Rows of the two raw tables for the same posting and for others: a row is given by its
  id, title and company, the remaining cells being the same in all of them.
\<close>

definition raw_merojob :: "string \<Rightarrow> string \<Rightarrow> string \<Rightarrow> merojob_row" where
  "raw_merojob ident title_text company_text =
     \<lparr> m_id = Some ident, m_title = Some title_text, m_company = Some company_text,
       m_location = Some ''KTM'', m_categories = Some ''IT'', m_deadline = Some ''2026-02-01'',
       m_job_level = Some ''Senior'', m_vacancies = Some ''1'', m_salary_min = Some ''50000'',
       m_salary_max = Some ''N/A'', m_currency = Some ''NPR'', m_skills = Some '''',
       m_job_url = Some ''https://merojob.com/dev'', m_scraped_at = Some ''2026-01-05T09:30:00'' \<rparr>"

definition raw_kumari :: "string \<Rightarrow> string \<Rightarrow> string \<Rightarrow> kumari_row" where
  "raw_kumari ident title_text company_text =
     \<lparr> k_job_id = Some ident, k_job_title = Some title_text, k_company = Some company_text,
       k_link = Some ''N/A'', k_salary = Some ''Negotiable'', k_experience = Some ''N/A'',
       k_industry = Some ''N/A'', k_job_level = Some ''N/A'', k_education = Some ''N/A'',
       k_scraped_at = Some ''2026-01-05T09:30:00'' \<rparr>"

section \<open>The network\<close>

text \<open>
  What a page holds is what the program asks of it. An HTML page answers the
  BeautifulSoup queries of the KumariJob scraper; texts are those of
  \<open>get_text(strip=True)\<close>, and a sub-element or attribute that is not there is
  \<open>None\<close>. A JSON page is the API answer of MeroJob: the job dicts that the loop over
  \<open>results\<close> builds (or the exception it raises on an entry), and the \<open>next\<close> pointer.
\<close>

record card =
  data_jobid :: string
  h5 :: "(string \<times> string option option) option"
  h6 :: "string option"
  job_info :: "(string \<times> string option) option"
  featured_job_company_name :: "string option"
  featured_job_company_logo_alt :: "string option"
  description :: "string list option"

text \<open>
  \<open>h5\<close> is the text of the first \<open>h5\<close> with its first \<open>a\<close>: \<open>None\<close> when it has no
  \<open>a\<close>, \<open>Some None\<close> for an \<open>a\<close> without \<open>href\<close>. \<open>job_info\<close> is the text and the
  \<open>href\<close> of the first element of class \<open>job-info\<close>. The logo's text is the \<open>alt\<close> of
  the \<open>img\<close> inside the logo figure when figure, image and attribute are all there.
  \<open>description\<close> holds the texts of the \<open>li\<close> of \<open>ul.description\<close>, in order.
\<close>

record html_page =
  job_cards :: "card list"
  info_cards :: "(string option \<times> string option) list"
  detail_box :: "(string option \<times> string option) list option"

record api_page =
  results :: "exn + mero_job list"
  next_url :: "string option"

datatype body = Html html_page | Json api_page

datatype http = Raises exn | Response nat body

text \<open>
  The network answers the \<open>n\<close>-th request of a run, made to a URL, with an exception or
  with a status code and a body. \<open>raise_for_status\<close> raises \<open>HTTPError\<close>, a
  \<open>RequestException\<close>, on the codes 400 to 599.
\<close>

type_synonym network = "nat \<Rightarrow> string \<Rightarrow> http"

definition raise_for_status :: "nat \<Rightarrow> exn + unit" where
  "raise_for_status status = (if 400 \<le> status \<and> status < 600 then Inl RequestException else Inr ())"

definition soup :: "body \<Rightarrow> html_page" where
  "soup b = (case b of Html p \<Rightarrow> p
             | Json j \<Rightarrow> \<lparr> job_cards = [], info_cards = [], detail_box = None \<rparr>)"

definition response_json :: "body \<Rightarrow> exn + api_page" where
  "response_json b = (case b of Json j \<Rightarrow> Inr j | Html p \<Rightarrow> Inl ValueError)"

section \<open>scrape\_kumari.py\<close>

subsection \<open>One card\<close>

text \<open>Title, company and link of a card: strategy 1, else strategy 2, else placeholders.\<close>

definition card_fields :: "card \<Rightarrow> exn + string \<times> string \<times> string" where
  "card_fields c =
     (case h5 c of
        Some (job_title, link_tag) \<Rightarrow>
          (case link_tag of
             None \<Rightarrow> Inr (job_title, (case h6 c of Some t \<Rightarrow> t | None \<Rightarrow> ''N/A''), ''N/A'')
           | Some None \<Rightarrow> Inl KeyError
           | Some (Some href) \<Rightarrow>
               Inr (job_title, (case h6 c of Some t \<Rightarrow> t | None \<Rightarrow> ''N/A''), href))
      | None \<Rightarrow>
          (case job_info c of
             Some (job_title, href) \<Rightarrow>
               Inr (job_title,
                    (case featured_job_company_name c of
                       Some t \<Rightarrow> t
                     | None \<Rightarrow> (case featured_job_company_logo_alt c of
                                   Some alt \<Rightarrow> alt | None \<Rightarrow> ''N/A'')),
                    (case href of Some h \<Rightarrow> h | None \<Rightarrow> ''N/A''))
           | None \<Rightarrow> Inr (''N/A'', ''N/A'', ''N/A'')))"

text \<open>
  The loop over the list items, with the pair \<open>(salary, experience)\<close> as its state: an
  item assigns \<open>experience\<close> when it mentions a year or a fresher, else \<open>salary\<close> when
  it mentions the currency or negotiability. There is no \<open>break\<close>.
\<close>

fun scan_items :: "string list \<Rightarrow> string \<times> string \<Rightarrow> string \<times> string" where
  "scan_items [] st = st"
| "scan_items (text # lis) (card_salary, card_experience) =
     (if py_in ''Year'' text \<or> py_in ''Fresher'' text then scan_items lis (card_salary, text)
      else if py_in ''Nrs.'' text \<or> py_in ''Negotiable'' text then scan_items lis (text, card_experience)
      else scan_items lis (card_salary, card_experience))"

definition scan_description :: "string list option \<Rightarrow> string \<times> string" where
  "scan_description desc_ul =
     (case desc_ul of None \<Rightarrow> (''N/A'', ''N/A'') | Some lis \<Rightarrow> scan_items lis (''N/A'', ''N/A''))"

text \<open>The record stored for a job id met for the first time.\<close>

definition new_record :: "string \<Rightarrow> string \<Rightarrow> string \<Rightarrow> string \<Rightarrow> string \<Rightarrow> partial_record" where
  "new_record job_title card_company job_link card_salary card_experience =
     [''Job Title'' \<mapsto> job_title, ''Company'' \<mapsto> card_company, ''Link'' \<mapsto> job_link,
      ''Salary'' \<mapsto> card_salary, ''Experience'' \<mapsto> card_experience]"

text \<open>
  The merge for a job id met again. \<open>current['Company']\<close> raises \<open>KeyError\<close> on a record
  without the key; the other two fields are read with \<open>get\<close>.
\<close>

definition merge_duplicate :: "partial_record \<Rightarrow> string \<Rightarrow> string \<Rightarrow> string \<Rightarrow> exn + partial_record" where
  "merge_duplicate current card_company card_salary card_experience =
     (case current ''Company'' of
        None \<Rightarrow> Inl KeyError
      | Some current_company \<Rightarrow>
          (let c1 = (if current_company = ''N/A'' \<and> card_company \<noteq> ''N/A''
                     then current(''Company'' \<mapsto> card_company) else current);
               c2 = (if dict_get c1 ''Salary'' ''N/A'' = ''N/A'' \<and> card_salary \<noteq> ''N/A''
                     then c1(''Salary'' \<mapsto> card_salary) else c1);
               c3 = (if dict_get c2 ''Experience'' ''N/A'' = ''N/A'' \<and> card_experience \<noteq> ''N/A''
                     then c2(''Experience'' \<mapsto> card_experience) else c2)
           in Inr c3))"

type_synonym jobs_map = "(string \<times> partial_record) list"

definition process_card :: "card \<Rightarrow> jobs_map \<Rightarrow> exn + jobs_map" where
  "process_card c jobs =
     (case card_fields c of
        Inl e \<Rightarrow> Inl e
      | Inr (job_title, card_company, job_link) \<Rightarrow>
          if job_title = ''N/A'' \<and> job_link = ''N/A'' then Inr jobs
          else
            (case scan_description (description c) of
               (card_salary, card_experience) \<Rightarrow>
                 (case map_of jobs (data_jobid c) of
                    Some current \<Rightarrow>
                      (case merge_duplicate current card_company card_salary card_experience of
                         Inl e \<Rightarrow> Inl e
                       | Inr merged \<Rightarrow> Inr (AList.update (data_jobid c) merged jobs))
                  | None \<Rightarrow>
                      Inr (AList.update (data_jobid c)
                             (new_record job_title card_company job_link card_salary card_experience) jobs))))"

text \<open>The loop over the cards: \<open>AttributeError\<close> skips the card, anything else leaves the
  loop.\<close>

fun process_cards :: "card list \<Rightarrow> jobs_map \<Rightarrow> exn + jobs_map" where
  "process_cards [] jobs = Inr jobs"
| "process_cards (c # cs) jobs =
     (case process_card c jobs of
        Inr jobs' \<Rightarrow> process_cards cs jobs'
      | Inl e \<Rightarrow> if e = AttributeError then process_cards cs jobs else Inl e)"

subsection \<open>The detail page of a job\<close>

text \<open>\<open>" ".join(s.split())\<close>: the words of \<open>s\<close>, one space between them.\<close>

fun join_words :: "string list \<Rightarrow> string" where
  "join_words [] = []"
| "join_words [w] = w"
| "join_words (w # ws) = w @ '' '' @ join_words ws"

definition collapse_spaces :: "string \<Rightarrow> string" where
  "collapse_spaces s = join_words (findall_runs (\<lambda>c. \<not> py_isspace c) s)"

text \<open>Layout A: an info card with title and text sets the field its title names.\<close>

definition set_info_card :: "string option \<times> string option \<Rightarrow> partial_record \<Rightarrow> partial_record" where
  "set_info_card tv job_data =
     (case tv of
        (Some title_text, Some val_text) \<Rightarrow>
          if title_text = ''Industry'' then job_data(''Industry'' \<mapsto> val_text)
          else if title_text = ''Job Level'' then job_data(''Job Level'' \<mapsto> val_text)
          else if title_text = ''Education'' then job_data(''Education'' \<mapsto> val_text)
          else if title_text = ''Desired Candidate'' then job_data(''Desired Candidate'' \<mapsto> val_text)
          else if title_text = ''Experience'' then job_data(''Experience'' \<mapsto> val_text)
          else job_data
      | _ \<Rightarrow> job_data)"

text \<open>Layout B: a row with both spans sets the field its label mentions.\<close>

definition set_detail_row :: "string option \<times> string option \<Rightarrow> partial_record \<Rightarrow> partial_record" where
  "set_detail_row lr job_data =
     (case lr of
        (Some label, Some right_text) \<Rightarrow>
          (let val = collapse_spaces right_text in
           if py_in ''Industry'' label then job_data(''Industry'' \<mapsto> val)
           else if py_in ''Job Level'' label then job_data(''Job Level'' \<mapsto> val)
           else if py_in ''Education'' label then job_data(''Education'' \<mapsto> val)
           else if py_in ''Desired'' label then job_data(''Desired Candidate'' \<mapsto> val)
           else if py_in ''Experience'' label then job_data(''Experience'' \<mapsto> val)
           else job_data)
      | _ \<Rightarrow> job_data)"

definition read_detail :: "html_page \<Rightarrow> partial_record \<Rightarrow> partial_record" where
  "read_detail p job_data =
     (if info_cards p \<noteq> [] then foldl (\<lambda>d tv. set_info_card tv d) job_data (info_cards p)
      else (case detail_box p of
              None \<Rightarrow> job_data
            | Some rows \<Rightarrow> foldl (\<lambda>d lr. set_detail_row lr d) job_data rows))"

text \<open>
  \<open>fetch_with_retry\<close>: the second argument counts the attempts left, the third the
  requests made so far. A \<open>RequestException\<close> and a status other than 200 lead to the
  next attempt; any other exception leaves the function. The pauses between attempts
  change no result and are left out.
\<close>

fun fetch_with_retry :: "network \<Rightarrow> string \<Rightarrow> nat \<Rightarrow> nat \<Rightarrow> (exn + body option) \<times> nat" where
  "fetch_with_retry nw link 0 n = (Inr None, n)"
| "fetch_with_retry nw link (Suc retries) n =
     (case nw n link of
        Response status b \<Rightarrow>
          if status = 200 then (Inr (Some b), Suc n) else fetch_with_retry nw link retries (Suc n)
      | Raises e \<Rightarrow>
          if e = RequestException then fetch_with_retry nw link retries (Suc n)
          else (Inl e, Suc n))"

text \<open>The loop over \<open>jobs_map.items()\<close>: each record with a link is completed in place.\<close>

fun deep_scrape :: "network \<Rightarrow> jobs_map \<Rightarrow> nat \<Rightarrow> (exn + jobs_map) \<times> nat" where
  "deep_scrape nw [] n = (Inr [], n)"
| "deep_scrape nw ((jid, job_data) # rest) n =
     (case job_data ''Link'' of
        None \<Rightarrow> (Inl KeyError, n)
      | Some link \<Rightarrow>
          if link = ''N/A'' then
            (case deep_scrape nw rest n of
               (Inl e, n') \<Rightarrow> (Inl e, n')
             | (Inr rest', n') \<Rightarrow> (Inr ((jid, job_data) # rest'), n'))
          else
            (case fetch_with_retry nw link 3 n of
               (Inl e, n1) \<Rightarrow> (Inl e, n1)
             | (Inr resp, n1) \<Rightarrow>
                 (case deep_scrape nw rest n1 of
                    (Inl e, n') \<Rightarrow> (Inl e, n')
                  | (Inr rest', n') \<Rightarrow>
                      (Inr ((jid, (case resp of
                                        Some b \<Rightarrow> read_detail (soup b) job_data
                                      | None \<Rightarrow> job_data)) # rest'), n'))))"

subsection \<open>The scraper\<close>

text \<open>
  The state of a run: the number of requests made and the three tables. The
  environment: the network, the clock that \<open>datetime.now().isoformat()\<close> reads (a
  function of the requests made so far), and the pandas functions.
\<close>

record world =
  requests_made :: nat
  merojob_raw :: "merojob_row list"
  kumari_raw :: "kumari_row list"
  jobs_clean :: "stored_row list"

record 't env =
  net :: network
  clock :: "nat \<Rightarrow> string"
  pandas_lib :: "'t pandas"

definition kumari_url :: string where
  "kumari_url = ''https://www.kumarijob.com/''"

text \<open>The body of the outer \<open>try\<close> of \<open>scrape_kumari_jobs\<close>.\<close>

definition scrape_kumari_try :: "'t env \<Rightarrow> world \<Rightarrow> (exn + nat) \<times> world" where
  "scrape_kumari_try ev w =
     (let n = requests_made w in
      case net ev n kumari_url of
        Raises e \<Rightarrow> (Inl e, w\<lparr>requests_made := Suc n\<rparr>)
      | Response status b \<Rightarrow>
          (case raise_for_status status of
             Inl e \<Rightarrow> (Inl e, w\<lparr>requests_made := Suc n\<rparr>)
           | Inr u \<Rightarrow>
               (case process_cards (job_cards (soup b)) [] of
                  Inl e \<Rightarrow> (Inl e, w\<lparr>requests_made := Suc n\<rparr>)
                | Inr jobs \<Rightarrow>
                    (case deep_scrape (net ev) jobs (Suc n) of
                       (Inl e, n') \<Rightarrow> (Inl e, w\<lparr>requests_made := n'\<rparr>)
                     | (Inr jobs', n') \<Rightarrow>
                         (case save_kumari_data jobs' (clock ev n') (kumari_raw w) of
                            Inl e \<Rightarrow> (Inl e, w\<lparr>requests_made := n'\<rparr>)
                          | Inr tbl \<Rightarrow>
                              (Inr (length jobs'),
                               w\<lparr>requests_made := n', kumari_raw := tbl\<rparr>))))))"

text \<open>The two handlers of the outer \<open>try\<close>: both return 0.\<close>

definition scrape_kumari_jobs :: "'t env \<Rightarrow> world \<Rightarrow> (exn + nat) \<times> world" where
  "scrape_kumari_jobs ev w =
     (case scrape_kumari_try ev w of
        (Inr n, w') \<Rightarrow> (Inr n, w')
      | (Inl e, w') \<Rightarrow>
          if e = RequestException then (Inr 0, w')
          else if is_Exception e then (Inr 0, w')
          else (Inl e, w'))"

section \<open>merojob\_scraper.py\<close>

definition merojob_url :: string where
  "merojob_url = ''https://api.merojob.com/api/v1/jobs/?page=1&page_size=50''"

text \<open>The \<open>try\<close> inside the loop: request, status check, JSON.\<close>

definition fetch_page :: "network \<Rightarrow> string \<Rightarrow> nat \<Rightarrow> exn + api_page" where
  "fetch_page nw url n =
     (case nw n url of
        Raises e \<Rightarrow> Inl e
      | Response status b \<Rightarrow>
          (case raise_for_status status of Inl e \<Rightarrow> Inl e | Inr u \<Rightarrow> response_json b))"

text \<open>
  \<open>while url:\<close> follows the \<open>next\<close> pointers and need not end, so the loop is a partial
  function; \<open>None\<close> is a run that never leaves it. An \<open>Exception\<close> of the \<open>try\<close> breaks
  out of the loop with the jobs gathered so far; an exception of the loop over
  \<open>results\<close> leaves the function.
\<close>

partial_function (option) scrape_pages ::
  "network \<Rightarrow> string option \<Rightarrow> mero_job list \<Rightarrow> nat \<Rightarrow> ((exn + mero_job list) \<times> nat) option" where
  "scrape_pages nw url all_jobs n =
     (case url of
        None \<Rightarrow> Some (Inr all_jobs, n)
      | Some u \<Rightarrow>
          if u = [] then Some (Inr all_jobs, n)
          else
            (case fetch_page nw u n of
               Inl e \<Rightarrow> if is_Exception e then Some (Inr all_jobs, Suc n) else Some (Inl e, Suc n)
             | Inr data \<Rightarrow>
                 (case results data of
                    Inl e \<Rightarrow> Some (Inl e, Suc n)
                  | Inr jobs \<Rightarrow> scrape_pages nw (next_url data) (all_jobs @ jobs) (Suc n))))"

definition scrape_jobs :: "'t env \<Rightarrow> world \<Rightarrow> ((exn + nat) \<times> world) option" where
  "scrape_jobs ev w =
     (case scrape_pages (net ev) (Some merojob_url) [] (requests_made w) of
        None \<Rightarrow> None
      | Some (Inl e, n') \<Rightarrow> Some (Inl e, w\<lparr>requests_made := n'\<rparr>)
      | Some (Inr all_jobs, n') \<Rightarrow>
          if all_jobs \<noteq> [] then
            (case save_merojob_data all_jobs (clock ev n') (merojob_raw w) of
               Inl e \<Rightarrow> Some (Inl e, w\<lparr>requests_made := n'\<rparr>)
             | Inr tbl \<Rightarrow>
                 Some (Inr (length all_jobs), w\<lparr>requests_made := n', merojob_raw := tbl\<rparr>))
          else Some (Inr (length all_jobs), w\<lparr>requests_made := n'\<rparr>))"

section \<open>scheduler.py: full\_pipeline\<close>

record summary =
  mero_count :: nat
  kumari_count :: nat
  clean_count :: nat

text \<open>\<open>try: count = stage() except Exception: count = 0\<close>.\<close>

definition stage_count :: "exn + nat \<Rightarrow> exn + nat" where
  "stage_count r = (case r of Inr n \<Rightarrow> Inr n | Inl e \<Rightarrow> if is_Exception e then Inr 0 else Inl e)"

text \<open>The third stage on the state: the frame replaces \<open>jobs_clean\<close> unless both raw
  tables are empty, and its length is the count.\<close>

definition run_clean :: "'t env \<Rightarrow> world \<Rightarrow> (exn + nat) \<times> world" where
  "run_clean ev w =
     (case clean_and_merge (pandas_lib ev) (merojob_raw w) (kumari_raw w) of
        Inl e \<Rightarrow> (Inl e, w)
      | Inr df \<Rightarrow>
          (Inr (length df),
           if merojob_raw w = [] \<and> kumari_raw w = [] then w else w\<lparr>jobs_clean := df\<rparr>))"

definition full_pipeline :: "'t env \<Rightarrow> world \<Rightarrow> ((exn + summary) \<times> world) option" where
  "full_pipeline ev w =
     (case scrape_jobs ev w of
        None \<Rightarrow> None
      | Some (r1, w1) \<Rightarrow>
          (case stage_count r1 of
             Inl e \<Rightarrow> Some (Inl e, w1)
           | Inr c1 \<Rightarrow>
               (case scrape_kumari_jobs ev w1 of
                  (r2, w2) \<Rightarrow>
                    (case stage_count r2 of
                       Inl e \<Rightarrow> Some (Inl e, w2)
                     | Inr c2 \<Rightarrow>
                         (case run_clean ev w2 of
                            (r3, w3) \<Rightarrow>
                              (case stage_count r3 of
                                 Inl e \<Rightarrow> Some (Inl e, w3)
                               | Inr c3 \<Rightarrow>
                                   Some (Inr \<lparr> mero_count = c1, kumari_count = c2,
                                               clean_count = c3 \<rparr>, w3)))))))"

section \<open>Auxiliary definitions for the statements\<close>

text \<open>Reading one field of the result of a merge; \<open>None\<close> when the merge raised or the
  record has no such field.\<close>

definition merged_field :: "exn + partial_record \<Rightarrow> string \<Rightarrow> string option" where
  "merged_field r f = (case r of Inr merged \<Rightarrow> merged f | Inl e \<Rightarrow> None)"

text \<open>
  The loop of the two \<open>save\<close> functions on the rows to insert: a statement that raises
  is skipped.
\<close>

definition insert_all :: "('r \<Rightarrow> pk) \<Rightarrow> 'r list \<Rightarrow> 'r list \<Rightarrow> 'r list" where
  "insert_all key rows tbl =
     foldl (\<lambda>t row. case insert_or_ignore key row t of Inr t' \<Rightarrow> t' | Inl e \<Rightarrow> t) tbl rows"

section \<open>Runs for the examples\<close>

text \<open>
  Two networks. On the first, the first MeroJob page arrives with one job and a pointer
  to a second page, the second page fails with a network error, the KumariJob listing
  arrives with one card, and every request after it fails. On the second, the first
  MeroJob page holds an entry on which the loop over the results raises, and every
  later request fails.
\<close>

definition flaky_network :: network where
  "flaky_network n url =
     (if n = 0 then
        Response 200 (Json \<lparr> results = Inr [[''id'' \<mapsto> Some ''42'', ''title'' \<mapsto> Some ''Dev'']],
                             next_url = Some ''https://api.merojob.com/api/v1/jobs/?page=2'' \<rparr>)
      else if n = 2 then
        Response 200 (Html \<lparr> job_cards =
                               [\<lparr> data_jobid = ''7'',
                                  h5 = Some (''Developer'', Some (Some ''/job/7'')),
                                  h6 = Some ''Acme'', job_info = None,
                                  featured_job_company_name = None,
                                  featured_job_company_logo_alt = None,
                                  description = Some [''2 Years''] \<rparr>],
                             info_cards = [], detail_box = None \<rparr>)
      else Raises RequestException)"

definition failing_network :: network where
  "failing_network n url =
     (if n = 0 then Response 200 (Json \<lparr> results = Inl AttributeError, next_url = None \<rparr>)
      else Raises RequestException)"

definition example_env :: "network \<Rightarrow> string env" where
  "example_env nw = \<lparr> net = nw, clock = (\<lambda>n. ''2026-01-05T09:30:00''), pandas_lib = text_pandas \<rparr>"

definition empty_world :: world where
  "empty_world = \<lparr> requests_made = 0, merojob_raw = [], kumari_raw = [], jobs_clean = [] \<rparr>"

text \<open>The count a stage contributes to the summary.\<close>

definition count_of :: "exn + nat \<Rightarrow> nat" where
  "count_of r = (case r of Inr n \<Rightarrow> n | Inl e \<Rightarrow> 0)"

section \<open>Salary extraction: the scan finds the runs\<close>

lemma split_at_not_Nil: "split_at sep s \<noteq> []"
  by (induction s) (auto split: list.splits)

lemma split_at_Cons_keep:
  "\<not> sep c \<Longrightarrow> split_at sep (c # cs) = (c # hd (split_at sep cs)) # tl (split_at sep cs)"
  using split_at_not_Nil [of sep cs] by (cases "split_at sep cs") auto

lemma split_at_run_append:
  "\<forall>c \<in> set xs. \<not> sep c \<Longrightarrow>
     split_at sep (xs @ ys) = (xs @ hd (split_at sep ys)) # tl (split_at sep ys)"
proof (induction xs)
  case Nil
  then show ?case using split_at_not_Nil [of sep ys] by simp
next
  case (Cons x xs)
  then have "\<not> sep x" by simp
  then have "split_at sep ((x # xs) @ ys) = (x # hd (split_at sep (xs @ ys))) # tl (split_at sep (xs @ ys))"
    using split_at_Cons_keep [of sep x "xs @ ys"] by simp
  also have "\<dots> = ((x # xs) @ hd (split_at sep ys)) # tl (split_at sep ys)"
    using Cons by simp
  finally show ?case .
qed

lemma split_at_dropWhile:
  "hd (split_at (\<lambda>c. \<not> p c) (dropWhile p cs)) = [] \<and>
   filter (\<lambda>w. w \<noteq> []) (tl (split_at (\<lambda>c. \<not> p c) (dropWhile p cs)))
     = filter (\<lambda>w. w \<noteq> []) (split_at (\<lambda>c. \<not> p c) (dropWhile p cs))"
proof (cases "dropWhile p cs")
  case Nil
  show ?thesis unfolding Nil by simp
next
  case (Cons d ds)
  then have "\<not> p d" by (metis hd_dropWhile list.sel(1) list.distinct(1))
  then show ?thesis unfolding Cons by simp
qed


lemma findall_runs_split:
  "findall_runs p s = filter (\<lambda>w. w \<noteq> []) (split_at (\<lambda>c. \<not> p c) s)"
proof (induction p s rule: findall_runs.induct)
  case (1 p)
  then show ?case by simp
next
  case (2 p c cs)
  show ?case
  proof (cases "p c")
    case False
    with 2 show ?thesis by simp
  next
    case True
    let ?run = "takeWhile p (c # cs)" and ?rest = "dropWhile p cs"
    let ?X = "split_at (\<lambda>c. \<not> p c) ?rest"
    have decomp: "c # cs = ?run @ ?rest" using True by simp
    have all: "\<forall>d \<in> set ?run. \<not> \<not> p d" by (auto dest: set_takeWhileD)
    have "split_at (\<lambda>c. \<not> p c) (?run @ ?rest) = (?run @ hd ?X) # tl ?X"
      by (rule split_at_run_append [OF all])
    then have "split_at (\<lambda>c. \<not> p c) (c # cs) = (?run @ hd ?X) # tl ?X"
      unfolding decomp [symmetric] .
    then have "filter (\<lambda>w. w \<noteq> []) (split_at (\<lambda>c. \<not> p c) (c # cs))
                 = ?run # filter (\<lambda>w. w \<noteq> []) ?X"
      using split_at_dropWhile [of p cs] True by (simp del: split_at.simps)
    moreover have "findall_runs p (c # cs) = ?run # findall_runs p ?rest" using True by simp
    ultimately show ?thesis using 2(1) [OF True] by (simp del: split_at.simps findall_runs.simps)
  qed
qed


lemma findall_runs_all: "r \<in> set (findall_runs p s) \<Longrightarrow> r \<noteq> [] \<and> list_all p r"
  unfolding findall_runs_split
proof (induction s arbitrary: r)
  case Nil
  then show ?case by simp
next
  case (Cons c cs)
  show ?case
  proof (cases "p c")
    case False
    with Cons show ?thesis by simp
  next
    case True
    let ?X = "split_at (\<lambda>c. \<not> p c) cs"
    have eq: "split_at (\<lambda>c. \<not> p c) (c # cs) = (c # hd ?X) # tl ?X"
      using True by (simp add: split_at_Cons_keep del: split_at.simps)
    have ne: "?X \<noteq> []" by (rule split_at_not_Nil)
    from Cons.prems have "r = c # hd ?X \<or> r \<in> set (filter (\<lambda>w. w \<noteq> []) (tl ?X))"
      unfolding eq by auto
    then show ?thesis
    proof
      assume r: "r = c # hd ?X"
      show ?thesis
      proof (cases "hd ?X = []")
        case True
        with r \<open>p c\<close> show ?thesis by simp
      next
        case False
        then have "hd ?X \<in> set (filter (\<lambda>w. w \<noteq> []) ?X)" using ne by simp
        from Cons.IH [OF this] r \<open>p c\<close> show ?thesis by simp
      qed
    next
      assume "r \<in> set (filter (\<lambda>w. w \<noteq> []) (tl ?X))"
      then have "r \<in> set (filter (\<lambda>w. w \<noteq> []) ?X)" using ne by (cases ?X) auto
      from Cons.IH [OF this] show ?thesis .
    qed
  qed
qed

lemma remove_commas_run_digits:
  "list_all salary_run_char r \<Longrightarrow> remove_commas r = filter is_digit r"
  unfolding remove_commas_def
proof (induction r)
  case Nil
  then show ?case by simp
next
  case (Cons c r)
  then have "salary_run_char c" by simp
  then have "(c \<noteq> CHR '','') = is_digit c"
    by (auto simp: salary_run_char_def is_digit_def)
  with Cons show ?case by simp
qed

lemma py_float_run:
  assumes "list_all salary_run_char r"
  shows "py_float (remove_commas r) = (case number_of_run r of Some v \<Rightarrow> Inr v | None \<Rightarrow> Inl ValueError)"
proof -
  have "list_ex is_digit r \<longleftrightarrow> filter is_digit r \<noteq> []"
    by (simp add: list_ex_iff filter_empty_conv)
  then show ?thesis
    using remove_commas_run_digits [OF assms]
    by (simp add: py_float_def number_of_run_def list_all_iff)
qed



lemma findall_runs_salary: "findall_runs salary_run_char s = digit_comma_runs s"
  by (simp add: findall_runs_split digit_comma_runs_def)

lemma salary_of_run:
  assumes "r \<in> set (digit_comma_runs s)"
  shows "(case py_float (remove_commas r) of
            Inr v \<Rightarrow> Inr (Some v)
          | Inl e \<Rightarrow> if e = ValueError then Inr None else Inl e) = Inr (number_of_run r)"
proof -
  have "list_all salary_run_char r"
    using assms findall_runs_all [of r salary_run_char s] by (simp add: findall_runs_salary)
  then show ?thesis
    by (simp add: py_float_run split: option.splits)
qed

lemma extract_salary_min_runs:
  "extract_salary_min (Some s) =
     Inr (case digit_comma_runs s of [] \<Rightarrow> None | r # rs \<Rightarrow> number_of_run r)"
proof (cases "digit_comma_runs s")
  case Nil
  then show ?thesis by (simp add: extract_salary_min_def findall_runs_salary)
next
  case (Cons r rs)
  then have "r \<in> set (digit_comma_runs s)" by simp
  from salary_of_run [OF this] Cons show ?thesis
    by (simp add: extract_salary_min_def findall_runs_salary)
qed

lemma extract_salary_max_runs:
  "extract_salary_max (Some s) =
     Inr (case digit_comma_runs s of r1 # r2 # rs \<Rightarrow> number_of_run r2 | _ \<Rightarrow> None)"
proof (cases "digit_comma_runs s")
  case Nil
  then show ?thesis by (simp add: extract_salary_max_def findall_runs_salary)
next
  case (Cons r1 rs)
  show ?thesis
  proof (cases rs)
    case Nil
    with Cons show ?thesis by (simp add: extract_salary_max_def findall_runs_salary)
  next
    case (Cons r2 rs')
    with \<open>digit_comma_runs s = r1 # rs\<close> have "r2 \<in> set (digit_comma_runs s)" by simp
    from salary_of_run [OF this] Cons \<open>digit_comma_runs s = r1 # rs\<close> show ?thesis
      by (simp add: extract_salary_max_def findall_runs_salary)
  qed
qed

lemma runs_example_range:
  "findall_runs salary_run_char ''Nrs. 20,000 - 30,000'' = [''20,000'', ''30,000'']"
  by code_simp

lemma runs_example_negotiable: "findall_runs salary_run_char ''Negotiable'' = []"
  by code_simp

lemma runs_example_single: "findall_runs salary_run_char ''Nrs. 45,000'' = [''45,000'']"
  by code_simp

lemma runs_example_rounded:
  "findall_runs salary_run_char ''9007199254740993'' = [''9007199254740993'']"
  "findall_runs salary_run_char ''9007199254740995'' = [''9007199254740995'']"
  by code_simp+

subsection \<open>The float of a natural number\<close>

lemma bit_length_less: "n < 2 ^ bit_length n"
proof (induction n rule: bit_length.induct)
  case (1 n)
  show ?case
  proof (cases "n = 0")
    case True
    then show ?thesis by (simp add: bit_length.simps)
  next
    case False
    from 1 [OF False] have "n div 2 < 2 ^ bit_length (n div 2)" .
    then have "n < 2 * 2 ^ bit_length (n div 2)" by linarith
    with False show ?thesis by (simp add: bit_length.simps [of n])
  qed
qed

lemma bit_length_greater: "n \<noteq> 0 \<Longrightarrow> 2 ^ (bit_length n - 1) \<le> n"
proof (induction n rule: bit_length.induct)
  case (1 n)
  show ?case
  proof (cases "n div 2 = 0")
    case True
    with 1(2) have "n = 1" by linarith
    then show ?thesis by (simp add: bit_length.simps)
  next
    case False
    from 1(1) [OF 1(2) False] have "2 ^ (bit_length (n div 2) - 1) \<le> n div 2" .
    then have "2 * 2 ^ (bit_length (n div 2) - 1) \<le> n" by linarith
    moreover have "bit_length (n div 2) \<noteq> 0"
      using False by (simp add: bit_length.simps [of "n div 2"])
    ultimately show ?thesis using 1(2)
      by (simp add: bit_length.simps [of n] power_Suc [symmetric] del: power_Suc)
  qed
qed

text \<open>Below \<open>2^53\<close> the float is the number itself.\<close>

lemma double_of_nat_exact: "n < 2 ^ 53 \<Longrightarrow> double_of_nat n = Finite (real n)"
  by (simp add: double_of_nat_def)

text \<open>From \<open>2^53\<close> on, a finite result is a multiple of \<open>2^e\<close> with a significand of at
  most 53 bits, and no more than half of \<open>2^e\<close> away from the number.\<close>

lemma double_of_nat_nearest:
  assumes big: "2 ^ 53 \<le> n" and fin: "double_of_nat n = Finite x"
  shows "\<exists>k \<le> 2 ^ 53. x = real (k * 2 ^ (bit_length n - 53))
           \<and> \<bar>x - real n\<bar> * 2 \<le> 2 ^ (bit_length n - 53)"
proof -
  note [simp del] = power_numeral
  define e where "e = bit_length n - 53"
  define q where "q = n div 2 ^ e"
  define r where "r = n mod 2 ^ e"
  define q' where "q' = (if r > 2 ^ (e - 1) \<or> (r = 2 ^ (e - 1) \<and> odd q) then q + 1 else q)"
  have "(2::nat) ^ 53 < 2 ^ bit_length n" using big bit_length_less [of n] by linarith
  then have "53 < bit_length n" by (rule power_less_imp_less_exp [rotated]) simp
  then have e: "0 < e" "bit_length n = 53 + e" by (simp_all add: e_def)
  have half: "(2::nat) ^ e = 2 * 2 ^ (e - 1)" using e(1) by (cases e) simp_all
  have n: "n = q * 2 ^ e + r" unfolding q_def r_def by (rule div_mult_mod_eq [symmetric])
  have r: "r < 2 ^ e" by (simp add: r_def)
  have "n < 2 ^ 53 * 2 ^ e" using bit_length_less [of n] unfolding e(2) by (simp only: power_add)
  then have "q < 2 ^ 53" unfolding q_def by (simp add: less_mult_imp_div_less)
  then have k: "q' \<le> 2 ^ 53" by (simp add: q'_def)
  have nb: "\<not> n < 2 ^ 53" using big by simp
  from fin have x: "x = real (q' * 2 ^ e)"
    unfolding double_of_nat_def Let_def e_def [symmetric] q_def [symmetric] r_def [symmetric]
      q'_def [symmetric]
    using nb by (simp split: if_splits)
  have "\<bar>real (q' * 2 ^ e) - real n\<bar> * 2 \<le> 2 ^ e"
  proof (cases "r > 2 ^ (e - 1) \<or> (r = 2 ^ (e - 1) \<and> odd q)")
    case True
    then have "q' = q + 1" by (simp add: q'_def)
    then have "real (q' * 2 ^ e) - real n = real (2 ^ e) - real r"
      by (simp add: n algebra_simps)
    moreover have "2 ^ (e - 1) \<le> r" using True by auto
    then have "real (2 ^ e) \<le> 2 * real r" unfolding half
      by (metis mult_le_mono2 of_nat_le_iff of_nat_mult of_nat_numeral)
    moreover have "real r < real (2 ^ e)" using r by (simp only: of_nat_less_iff)
    ultimately show ?thesis by simp
  next
    case False
    then have "q' = q" by (simp add: q'_def)
    then have "real (q' * 2 ^ e) - real n = - real r" by (simp add: n)
    moreover from False have "r \<le> 2 ^ (e - 1)" by auto
    then have "2 * real r \<le> real (2 ^ e)" unfolding half
      by (metis mult_le_mono2 of_nat_le_iff of_nat_mult of_nat_numeral)
    ultimately show ?thesis by simp
  qed
  with k x show ?thesis unfolding e_def [symmetric] by (intro exI [of _ q']) simp
qed

text \<open>From \<open>2^1024\<close> on the float is \<open>inf\<close>.\<close>

lemma double_of_nat_overflow:
  assumes "2 ^ 1024 \<le> n"
  shows "double_of_nat n = PlusInf"
proof -
  have "(0::nat) < 2 ^ 1024" by simp
  with assms have n0: "n \<noteq> 0" by linarith
  note [simp del] = power_numeral
  define e where "e = bit_length n - 53"
  have "(2::nat) ^ 1024 < 2 ^ bit_length n"
    using assms bit_length_less [of n] by linarith
  then have bl: "1024 < bit_length n"
    by (rule power_less_imp_less_exp [rotated]) simp
  then have e: "bit_length n - 1 = 52 + e" "971 < e" by (simp_all add: e_def)
  have "(2::nat) ^ (52 + e) \<le> n"
    using bit_length_greater [OF n0] unfolding e(1) .
  then have "(2::nat) ^ 52 * 2 ^ e \<le> n" by (simp only: power_add)
  then have q: "2 ^ 52 \<le> n div 2 ^ e"
    by (simp add: less_eq_div_iff_mult_less_eq)
  have "(2::nat) ^ 1024 \<le> 2 ^ (52 + e)" using e(2) by (intro power_increasing) simp_all
  also have "\<dots> = 2 ^ 52 * 2 ^ e" by (simp add: power_add)
  also have "\<dots> \<le> (n div 2 ^ e) * 2 ^ e" using q by (intro mult_right_mono) simp_all
  finally have low: "2 ^ 1024 \<le> (n div 2 ^ e) * 2 ^ e" .
  then have up: "2 ^ 1024 \<le> (n div 2 ^ e + 1) * 2 ^ e"
    by (simp add: add_mult_distrib trans_le_add1)
  have "(2::nat) ^ 53 \<le> 2 ^ 1024" by (rule power_increasing) simp_all
  with assms have "\<not> n < 2 ^ 53" by linarith
  then show ?thesis
    using low up unfolding double_of_nat_def Let_def e_def [symmetric]
    by (simp del: power_numeral)
qed

lemma double_of_nat_examples:
  "double_of_nat 9007199254740993 = Finite 9007199254740992"
  "double_of_nat 9007199254740995 = Finite 9007199254740996"
proof -
  have "bit_length 9007199254740993 = 54" "bit_length 9007199254740995 = 54"
    by (simp_all add: bit_length.simps)
  then show "double_of_nat 9007199254740993 = Finite 9007199254740992"
    "double_of_nat 9007199254740995 = Finite 9007199254740996"
    by (simp_all add: double_of_nat_def Let_def)
qed

text \<open>The string of 309 nines, \<open>'9' * 309\<close>, denotes a number beyond the doubles.\<close>

lemma nat_of_digits_snoc: "nat_of_digits (s @ [c]) = 10 * nat_of_digits s + digit_value c"
  by (simp add: nat_of_digits_def)

lemma nat_of_digits_nines: "nat_of_digits (replicate k (CHR ''9'')) + 1 = 10 ^ k"
proof (induction k)
  case 0
  then show ?case by (simp add: nat_of_digits_def)
next
  case (Suc k)
  have "nat_of_digits (replicate (Suc k) (CHR ''9''))
          = 10 * nat_of_digits (replicate k (CHR ''9'')) + 9"
    unfolding replicate_Suc replicate_append_same [symmetric] nat_of_digits_snoc
    by (simp add: digit_value_def)
  with Suc show ?case by simp
qed

lemma nines_beyond_doubles: "2 ^ 1024 \<le> nat_of_digits (replicate 309 (CHR ''9''))"
proof -
  have "(2::nat) ^ 1024 + 1 \<le> 10 ^ 309" by simp
  then show ?thesis unfolding nat_of_digits_nines [of 309, symmetric] by linarith
qed

lemma nines_digits:
  "filter is_digit (replicate 309 (CHR ''9'')) = replicate 309 (CHR ''9'')"
  "list_ex is_digit (replicate 309 (CHR ''9''))"
  by (simp_all add: is_digit_def filter_replicate list_ex_iff)

lemma findall_runs_whole:
  assumes "s \<noteq> []" and "list_all p s"
  shows "findall_runs p s = [s]"
proof (cases s)
  case Nil
  with assms show ?thesis by simp
next
  case (Cons c cs)
  with assms have pc: "p c" and d: "dropWhile p cs = []" and t: "takeWhile p cs = cs"
    by (simp_all add: list_all_iff)
  have "findall_runs p (c # cs) = (c # takeWhile p cs) # findall_runs p (dropWhile p cs)"
    using pc by simp
  then show ?thesis unfolding Cons d t by simp
qed

lemma nines_runs: "digit_comma_runs (replicate 309 (CHR ''9'')) = [replicate 309 (CHR ''9'')]"
  unfolding findall_runs_salary [symmetric]
  by (rule findall_runs_whole) (simp_all add: list_all_iff salary_run_char_def is_digit_def)

lemmas float_eval = py_float_def remove_commas_def is_digit_def nat_of_digits_def digit_value_def
  double_of_nat_def

lemma salary_examples:
  "extract_salary_min (Some ''Nrs. 20,000 - 30,000'') = Inr (Some (Finite 20000))"
  "extract_salary_max (Some ''Nrs. 20,000 - 30,000'') = Inr (Some (Finite 30000))"
  "extract_salary_min (Some ''Negotiable'') = Inr None"
  "extract_salary_max (Some ''Negotiable'') = Inr None"
  "extract_salary_min (Some ''Nrs. 45,000'') = Inr (Some (Finite 45000))"
  "extract_salary_max (Some ''Nrs. 45,000'') = Inr None"
  unfolding extract_salary_min_def extract_salary_max_def option.case Let_def
    runs_example_range runs_example_negotiable runs_example_single
  by (simp_all add: float_eval)

lemma salary_rounded:
  "extract_salary_min (Some ''9007199254740993'') = Inr (Some (Finite 9007199254740992))"
  "extract_salary_min (Some ''9007199254740995'') = Inr (Some (Finite 9007199254740996))"
proof -
  have "nat_of_digits ''9007199254740993'' = 9007199254740993"
    "nat_of_digits ''9007199254740995'' = 9007199254740995"
    by (simp_all add: nat_of_digits_def digit_value_def)
  then show "extract_salary_min (Some ''9007199254740993'') = Inr (Some (Finite 9007199254740992))"
    "extract_salary_min (Some ''9007199254740995'') = Inr (Some (Finite 9007199254740996))"
    unfolding extract_salary_min_def option.case Let_def runs_example_rounded
    by (simp_all add: py_float_def remove_commas_def is_digit_def double_of_nat_examples)
qed

text \<open>
  Claim C4. For every salary string, the runs of digits and commas are taken in order:
  the first run, its commas removed, read as a number is \<open>salary_min\<close>, the second run
  if there is one is \<open>salary_max\<close>, and both are null when the string has no such run.
  The number of a run is a float: null for a run without a digit, the decimal value of
  the digits when that is below \<open>2^53\<close>, \<open>inf\<close> when it is \<open>2^1024\<close> or more, and in
  between the nearest double (lemma \<open>double_of_nat_nearest\<close>), so that
  \<open>9007199254740993\<close> gives \<open>9007199254740992.0\<close>. Neither function raises. The three
  strings of the specification give 20000 and 30000, null and null, 45000 and null.
\<close>

theorem extract_salary_runs:
  "extract_salary_min (Some s) =
     Inr (case digit_comma_runs s of [] \<Rightarrow> None | r # rs \<Rightarrow> number_of_run r)
   \<and> extract_salary_max (Some s) =
     Inr (case digit_comma_runs s of r1 # r2 # rs \<Rightarrow> number_of_run r2 | _ \<Rightarrow> None)
   \<and> (digit_comma_runs s = [] \<longrightarrow>
        extract_salary_min (Some s) = Inr None \<and> extract_salary_max (Some s) = Inr None)
   \<and> (\<not> list_ex is_digit w \<longrightarrow> number_of_run w = None)
   \<and> (list_ex is_digit w \<and> nat_of_digits (filter is_digit w) < 2 ^ 53 \<longrightarrow>
        number_of_run w = Some (Finite (real (nat_of_digits (filter is_digit w)))))
   \<and> (list_ex is_digit w \<and> 2 ^ 1024 \<le> nat_of_digits (filter is_digit w) \<longrightarrow>
        number_of_run w = Some PlusInf)
   \<and> extract_salary_min None = Inr None \<and> extract_salary_max None = Inr None
   \<and> extract_salary_min (Some ''Nrs. 20,000 - 30,000'') = Inr (Some (Finite 20000))
   \<and> extract_salary_max (Some ''Nrs. 20,000 - 30,000'') = Inr (Some (Finite 30000))
   \<and> extract_salary_min (Some ''Negotiable'') = Inr None
   \<and> extract_salary_max (Some ''Negotiable'') = Inr None
   \<and> extract_salary_min (Some ''Nrs. 45,000'') = Inr (Some (Finite 45000))
   \<and> extract_salary_max (Some ''Nrs. 45,000'') = Inr None
   \<and> extract_salary_min (Some ''9007199254740993'') = Inr (Some (Finite 9007199254740992))
   \<and> extract_salary_min (Some ''9007199254740995'') = Inr (Some (Finite 9007199254740996))"
proof (intro conjI impI)
  show "extract_salary_min (Some s) =
     Inr (case digit_comma_runs s of [] \<Rightarrow> None | r # rs \<Rightarrow> number_of_run r)"
    by (rule extract_salary_min_runs)
  show "extract_salary_max (Some s) =
     Inr (case digit_comma_runs s of r1 # r2 # rs \<Rightarrow> number_of_run r2 | _ \<Rightarrow> None)"
    by (rule extract_salary_max_runs)
  show "extract_salary_min (Some s) = Inr None" if "digit_comma_runs s = []"
    using that by (simp add: extract_salary_min_runs)
  show "extract_salary_max (Some s) = Inr None" if "digit_comma_runs s = []"
    using that by (simp add: extract_salary_max_runs)
  show "number_of_run w = None" if "\<not> list_ex is_digit w"
    using that by (simp add: number_of_run_def)
  show "number_of_run w = Some (Finite (real (nat_of_digits (filter is_digit w))))"
    if "list_ex is_digit w \<and> nat_of_digits (filter is_digit w) < 2 ^ 53"
    using that by (simp add: number_of_run_def double_of_nat_exact del: power_numeral)
  show "number_of_run w = Some PlusInf"
    if "list_ex is_digit w \<and> 2 ^ 1024 \<le> nat_of_digits (filter is_digit w)"
    using that by (simp add: number_of_run_def double_of_nat_overflow del: power_numeral)
  show "extract_salary_min None = Inr None" by (simp add: extract_salary_min_def)
  show "extract_salary_max None = Inr None" by (simp add: extract_salary_max_def)
qed (simp_all only: salary_examples salary_rounded)

lemma runs_example_malformed: "digit_comma_runs ''Rs, 500'' = ['','', ''500'']"
  by code_simp

text \<open>
  The theorem at \<open>Negotiable\<close>, which has no run, at a string whose first run is a lone
  comma, and at the runs \<open>,\<close> and \<open>500\<close> and the run of 309 nines.
\<close>

theorem extract_salary_runs_witness:
  "digit_comma_runs ''Negotiable'' = []
   \<and> extract_salary_min (Some ''Negotiable'') = Inr None
   \<and> extract_salary_max (Some ''Negotiable'') = Inr None
   \<and> extract_salary_min (Some ''Rs, 500'') = Inr None
   \<and> extract_salary_max (Some ''Rs, 500'') = Inr (Some (Finite 500))
   \<and> number_of_run '','' = None
   \<and> number_of_run ''500'' = Some (Finite 500)
   \<and> number_of_run (replicate 309 (CHR ''9'')) = Some PlusInf
   \<and> extract_salary_min (Some (replicate 309 (CHR ''9''))) = Inr (Some PlusInf)"
proof -
  let ?nines = "replicate 309 (CHR ''9'')"
  have none: "digit_comma_runs ''Negotiable'' = []" by code_simp
  have comma: "\<not> list_ex is_digit '',''" by (simp add: is_digit_def)
  have small: "list_ex is_digit ''500'' \<and> nat_of_digits (filter is_digit ''500'') < 2 ^ 53"
    by (simp add: is_digit_def nat_of_digits_def digit_value_def)
  have digits: "real (nat_of_digits (filter is_digit ''500'')) = 500"
    by (simp add: is_digit_def nat_of_digits_def digit_value_def)
  have large: "list_ex is_digit ?nines \<and> 2 ^ 1024 \<le> nat_of_digits (filter is_digit ?nines)"
    unfolding nines_digits(1) using nines_digits(2) nines_beyond_doubles by (intro conjI)
  note at_negotiable = extract_salary_runs [of "''Negotiable''" "'',''"]
  note at_malformed = extract_salary_runs [of "''Rs, 500''" "''500''"]
  note at_nines = extract_salary_runs [of ?nines ?nines]
  note blank = at_negotiable [THEN conjunct2, THEN conjunct2, THEN conjunct1, THEN mp, OF none]
  have n1: "number_of_run '','' = None"
    by (rule at_negotiable [THEN conjunct2, THEN conjunct2, THEN conjunct2, THEN conjunct1,
          THEN mp, OF comma])
  have n2: "number_of_run ''500'' = Some (Finite 500)"
    using at_malformed [THEN conjunct2, THEN conjunct2, THEN conjunct2, THEN conjunct2,
        THEN conjunct1, THEN mp, OF small]
    unfolding digits .
  have n3: "number_of_run ?nines = Some PlusInf"
    by (rule at_nines [THEN conjunct2, THEN conjunct2, THEN conjunct2, THEN conjunct2,
          THEN conjunct2, THEN conjunct1, THEN mp, OF large])
  have m1: "extract_salary_min (Some ''Rs, 500'') = Inr None"
    using at_malformed [THEN conjunct1] unfolding runs_example_malformed by (simp add: n1)
  have m2: "extract_salary_max (Some ''Rs, 500'') = Inr (Some (Finite 500))"
    using at_malformed [THEN conjunct2, THEN conjunct1] unfolding runs_example_malformed
    by (simp add: n2)
  have m3: "extract_salary_min (Some ?nines) = Inr (Some PlusInf)"
    using at_nines [THEN conjunct1] unfolding nines_runs by (simp add: n3)
  from none blank n1 n2 n3 m1 m2 m3 show ?thesis by (intro conjI) simp_all
qed

section \<open>Job level and location\<close>

lemma any_in_iff: "any_in ws s \<longleftrightarrow> (\<exists>w \<in> set ws. sublist w s)"
  by (simp add: any_in_def py_in_def list_ex_iff)

lemma job_level_examples:
  "standardize_job_level (Some ''Senior Software Engineer'') = ''Senior Level''"
  "standardize_job_level (Some ''Fresher / Entry'') = ''Entry Level''"
  "standardize_job_level (Some ''Chief Operating Officer'') = ''Management''"
  "standardize_job_level (Some ''Blockchain Specialist'') = ''Blockchain Specialist''"
  by code_simp+

lemma job_level_untrimmed:
  "spec_placeholder ''  ''"
  "standardize_job_level (Some ''  '') = ''''"
  "standardize_job_level (Some '' n/a'') = ''N/A''"
  "standardize_job_level (Some '''') = ''Not Specified''"
  "standardize_job_level (Some ''n/a'') = ''Not Specified''"
  "clean_location (Some ''  '') = ''Unknown''"
  "clean_location (Some '' n/a'') = ''Unknown''"
  by code_simp+

text \<open>
  Claim C5. For every job-level string the keyword groups are tried on the lower-cased
  text in the stated order, the first group with a keyword occurring in it deciding, and
  a value that is not a string gives \<open>Not Specified\<close>; the four examples of the
  specification hold. Failing all four groups, the comparison with the sentinels is made
  on the lower-cased text as it stands, not trimmed, although the list of sentinels has
  the empty string and the last branch does trim: a whitespace-only level, a placeholder
  in the words of the specification, is not recognised and comes out as the empty
  string, not as \<open>Not Specified\<close>, and \<open>n/a\<close> after a blank comes out as \<open>N/A\<close>.
  \<open>clean_location\<close> trims before the same comparison and gives \<open>Unknown\<close> for both.
  The last branch is stated for the texts whose title case stays in the range of the
  strings; with one of the other two characters the first five branches are as for any
  text.
\<close>

theorem standardize_job_level_priority:
  "(title_in_range s \<longrightarrow>
      standardize_job_level (Some s) =
        (if (\<exists>w \<in> set [''entry'', ''junior'', ''fresher'', ''fresh'', ''graduate''].
               sublist w (py_lower s)) then ''Entry Level''
         else if (\<exists>w \<in> set [''mid'', ''intermediate'', ''associate''].
               sublist w (py_lower s)) then ''Mid Level''
         else if (\<exists>w \<in> set [''senior'', ''sr.'', ''lead'', ''principal''].
               sublist w (py_lower s)) then ''Senior Level''
         else if (\<exists>w \<in> set [''manager'', ''head'', ''director'', ''vp'', ''chief'', ''ceo'', ''cto''].
               sublist w (py_lower s)) then ''Management''
         else if py_lower s \<in> set [''n/a'', ''na'', '''', ''not specified''] then ''Not Specified''
         else py_title (py_strip s)))
   \<and> ((\<exists>w \<in> set [''entry'', ''junior'', ''fresher'', ''fresh'', ''graduate'',
                     ''mid'', ''intermediate'', ''associate'',
                     ''senior'', ''sr.'', ''lead'', ''principal'',
                     ''manager'', ''head'', ''director'', ''vp'', ''chief'', ''ceo'', ''cto''].
          sublist w (py_lower s))
        \<or> py_lower s \<in> set [''n/a'', ''na'', '''', ''not specified''] \<longrightarrow>
      standardize_job_level (Some s) =
        (if (\<exists>w \<in> set [''entry'', ''junior'', ''fresher'', ''fresh'', ''graduate''].
               sublist w (py_lower s)) then ''Entry Level''
         else if (\<exists>w \<in> set [''mid'', ''intermediate'', ''associate''].
               sublist w (py_lower s)) then ''Mid Level''
         else if (\<exists>w \<in> set [''senior'', ''sr.'', ''lead'', ''principal''].
               sublist w (py_lower s)) then ''Senior Level''
         else if (\<exists>w \<in> set [''manager'', ''head'', ''director'', ''vp'', ''chief'', ''ceo'', ''cto''].
               sublist w (py_lower s)) then ''Management''
         else ''Not Specified''))
   \<and> standardize_job_level None = ''Not Specified''
   \<and> standardize_job_level (Some ''Senior Software Engineer'') = ''Senior Level''
   \<and> standardize_job_level (Some ''Fresher / Entry'') = ''Entry Level''
   \<and> standardize_job_level (Some ''Chief Operating Officer'') = ''Management''
   \<and> standardize_job_level (Some ''Blockchain Specialist'') = ''Blockchain Specialist''
   \<and> standardize_job_level (Some '''') = ''Not Specified''
   \<and> standardize_job_level (Some ''n/a'') = ''Not Specified''
   \<and> spec_placeholder ''  ''
   \<and> standardize_job_level (Some ''  '') = ''''
   \<and> standardize_job_level (Some '' n/a'') = ''N/A''
   \<and> clean_location (Some ''  '') = ''Unknown''
   \<and> clean_location (Some '' n/a'') = ''Unknown''"
proof (intro conjI impI)
  show "standardize_job_level (Some s) =
        (if (\<exists>w \<in> set [''entry'', ''junior'', ''fresher'', ''fresh'', ''graduate''].
               sublist w (py_lower s)) then ''Entry Level''
         else if (\<exists>w \<in> set [''mid'', ''intermediate'', ''associate''].
               sublist w (py_lower s)) then ''Mid Level''
         else if (\<exists>w \<in> set [''senior'', ''sr.'', ''lead'', ''principal''].
               sublist w (py_lower s)) then ''Senior Level''
         else if (\<exists>w \<in> set [''manager'', ''head'', ''director'', ''vp'', ''chief'', ''ceo'', ''cto''].
               sublist w (py_lower s)) then ''Management''
         else if py_lower s \<in> set [''n/a'', ''na'', '''', ''not specified''] then ''Not Specified''
         else py_title (py_strip s))"
    unfolding any_in_iff [symmetric] by (simp add: standardize_job_level_def)
  assume "(\<exists>w \<in> set [''entry'', ''junior'', ''fresher'', ''fresh'', ''graduate'',
                     ''mid'', ''intermediate'', ''associate'',
                     ''senior'', ''sr.'', ''lead'', ''principal'',
                     ''manager'', ''head'', ''director'', ''vp'', ''chief'', ''ceo'', ''cto''].
          sublist w (py_lower s))
        \<or> py_lower s \<in> set [''n/a'', ''na'', '''', ''not specified'']"
  then have "any_in [''entry'', ''junior'', ''fresher'', ''fresh'', ''graduate''] (py_lower s)
      \<or> any_in [''mid'', ''intermediate'', ''associate''] (py_lower s)
      \<or> any_in [''senior'', ''sr.'', ''lead'', ''principal''] (py_lower s)
      \<or> any_in [''manager'', ''head'', ''director'', ''vp'', ''chief'', ''ceo'', ''cto''] (py_lower s)
      \<or> py_lower s \<in> set [''n/a'', ''na'', '''', ''not specified'']"
    unfolding any_in_iff by auto
  then show "standardize_job_level (Some s) =
        (if (\<exists>w \<in> set [''entry'', ''junior'', ''fresher'', ''fresh'', ''graduate''].
               sublist w (py_lower s)) then ''Entry Level''
         else if (\<exists>w \<in> set [''mid'', ''intermediate'', ''associate''].
               sublist w (py_lower s)) then ''Mid Level''
         else if (\<exists>w \<in> set [''senior'', ''sr.'', ''lead'', ''principal''].
               sublist w (py_lower s)) then ''Senior Level''
         else if (\<exists>w \<in> set [''manager'', ''head'', ''director'', ''vp'', ''chief'', ''ceo'', ''cto''].
               sublist w (py_lower s)) then ''Management''
         else ''Not Specified'')"
    unfolding any_in_iff [symmetric] by (auto simp: standardize_job_level_def)
next
  show "standardize_job_level None = ''Not Specified''"
    by (simp add: standardize_job_level_def)
qed (simp_all only: job_level_examples job_level_untrimmed)

text \<open>
  The theorem at a level with keywords of two groups, where the earlier group wins, and
  at a level with a keyword and the character U+00B5.
\<close>

theorem standardize_job_level_priority_witness:
  "title_in_range ''Sr. Manager''
   \<and> standardize_job_level (Some ''Sr. Manager'') = ''Senior Level''
   \<and> standardize_job_level (Some [CHR 0xB5, CHR '' '', CHR ''L'', CHR ''e'', CHR ''a'', CHR ''d''])
       = ''Senior Level''"
proof -
  let ?m = "[CHR 0xB5, CHR '' '', CHR ''L'', CHR ''e'', CHR ''a'', CHR ''d'']"
  have range: "title_in_range ''Sr. Manager''" by (simp add: title_in_range_def)
  have 1: "\<not> any_in [''entry'', ''junior'', ''fresher'', ''fresh'', ''graduate'']
              (py_lower ''Sr. Manager'')"
    by code_simp
  have 2: "\<not> any_in [''mid'', ''intermediate'', ''associate''] (py_lower ''Sr. Manager'')"
    by code_simp
  have 3: "any_in [''senior'', ''sr.'', ''lead'', ''principal''] (py_lower ''Sr. Manager'')"
    by code_simp
  have 4: "\<not> any_in [''entry'', ''junior'', ''fresher'', ''fresh'', ''graduate''] (py_lower ?m)"
    by code_simp
  have 5: "\<not> any_in [''mid'', ''intermediate'', ''associate''] (py_lower ?m)"
    by code_simp
  have 6: "any_in [''senior'', ''sr.'', ''lead'', ''principal''] (py_lower ?m)"
    by code_simp
  have key: "(\<exists>w \<in> set [''entry'', ''junior'', ''fresher'', ''fresh'', ''graduate'',
                     ''mid'', ''intermediate'', ''associate'',
                     ''senior'', ''sr.'', ''lead'', ''principal'',
                     ''manager'', ''head'', ''director'', ''vp'', ''chief'', ''ceo'', ''cto''].
          sublist w (py_lower ?m))
        \<or> py_lower ?m \<in> set [''n/a'', ''na'', '''', ''not specified'']"
    using 6 unfolding any_in_iff by auto
  have a: "standardize_job_level (Some ''Sr. Manager'') = ''Senior Level''"
    using standardize_job_level_priority [of "''Sr. Manager''", THEN conjunct1, THEN mp, OF range]
    unfolding any_in_iff [symmetric] by (simp only: 1 2 3 if_True if_False)
  have b: "standardize_job_level (Some ?m) = ''Senior Level''"
    using standardize_job_level_priority [of ?m, THEN conjunct2, THEN conjunct1, THEN mp, OF key]
    unfolding any_in_iff [symmetric] by (simp only: 4 5 6 if_True if_False)
  from range a b show ?thesis by (intro conjI)
qed

lemma location_examples:
  "clean_location (Some ''KTM'') = ''Kathmandu''"
  "clean_location (Some ''PKR.'') = ''Pokhara''"
  "clean_location (Some ''Biratnagar'') = ''Biratnagar''"
  "clean_location (Some '''') = ''Unknown''"
  by code_simp+

text \<open>
  Claim C6 as stated fails: the value is trimmed before anything else, so an unmapped
  value with a blank at either end does not pass through unchanged.
\<close>

theorem clean_location_untrimmed_counterexample:
  "\<not> spec_placeholder '' Biratnagar '' \<and> map_of mapping '' Biratnagar '' = None
   \<and> clean_location (Some '' Biratnagar '') = ''Biratnagar''
   \<and> clean_location (Some '' Biratnagar '') \<noteq> '' Biratnagar ''"
  by code_simp

text \<open>
  Claim C6, amended. For every location string the value is first trimmed; the trimmed
  value gives \<open>Unknown\<close> when it is empty or, lower-cased, \<open>n/a\<close> or \<open>na\<close>, the city of
  the table when it is one of the case-sensitive keys, and itself otherwise. A value
  that is not a string gives \<open>Unknown\<close>. The four examples of the specification hold.
\<close>

theorem clean_location_table:
  "clean_location (Some s) =
     (let t = py_strip s in
      if t = [] \<or> py_lower t \<in> set [''n/a'', ''na''] then ''Unknown''
      else if t \<in> set [''KTM'', ''Ktm'', ''ktm'', ''Kathmandu Valley''] then ''Kathmandu''
      else if t \<in> set [''PKR'', ''PKR.'', ''Pkr''] then ''Pokhara''
      else if t \<in> set [''BKT'', ''Bkt''] then ''Bhaktapur''
      else if t \<in> set [''LLT'', ''Llt'', ''Patan''] then ''Lalitpur''
      else if t = ''BRT'' then ''Birgunj''
      else if t = ''BTW'' then ''Butwal''
      else t)
   \<and> clean_location None = ''Unknown''
   \<and> clean_location (Some ''KTM'') = ''Kathmandu''
   \<and> clean_location (Some ''PKR.'') = ''Pokhara''
   \<and> clean_location (Some ''Biratnagar'') = ''Biratnagar''
   \<and> clean_location (Some '''') = ''Unknown''"
  by (simp add: location_examples) (simp add: clean_location_def mapping_def Let_def py_lower_def)

text \<open>The theorem at a key with blanks around it.\<close>

theorem clean_location_table_witness:
  "clean_location (Some '' Patan '') = ''Lalitpur''"
proof -
  have t: "py_strip '' Patan '' = ''Patan''" by code_simp
  have l: "py_lower ''Patan'' = ''patan''" by code_simp
  from clean_location_table [of "'' Patan ''"] show ?thesis
    by (simp add: t l Let_def)
qed

section \<open>clean\_and\_merge\<close>

lemma extract_salary_min_Inr: "\<exists>v. extract_salary_min c = Inr v"
proof (cases c)
  case None
  then show ?thesis by (simp add: extract_salary_min_def)
next
  case (Some s)
  then show ?thesis by (simp only: extract_salary_min_runs) blast
qed

lemma extract_salary_max_Inr: "\<exists>v. extract_salary_max c = Inr v"
proof (cases c)
  case None
  then show ?thesis by (simp add: extract_salary_max_def)
next
  case (Some s)
  then show ?thesis by (simp only: extract_salary_max_runs) blast
qed

lemma series_apply_Inr:
  assumes "\<And>x. \<exists>v. f x = Inr v"
  shows "series_apply f xs = Inr (map (\<lambda>x. case f x of Inr v \<Rightarrow> v | Inl e \<Rightarrow> d) xs)"
proof (induction xs)
  case Nil
  then show ?case by simp
next
  case (Cons x xs)
  from assms [of x] obtain v where "f x = Inr v" ..
  with Cons show ?case by simp
qed

lemma map_zip3: "map (\<lambda>(r, a, b). h r a b) (zip xs (zip (map f xs) (map g xs))) = map (\<lambda>r. h r (f r) (g r)) xs"
  by (induction xs) simp_all

lemma kumari_clean_frame: "kumari_clean pd kumari = Inr (kumari_frame pd kumari)"
  unfolding kumari_clean_def kumari_frame_def
  by (simp add: series_apply_Inr [where d = None, OF extract_salary_min_Inr]
        series_apply_Inr [where d = None, OF extract_salary_max_Inr] map_zip3 comp_def)

lemma clean_and_merge_frame:
  "clean_and_merge pd mero kumari =
     Inr (map (finalize_row pd) (quality_steps (mero_clean pd mero @ kumari_frame pd kumari)))"
  unfolding clean_and_merge_def kumari_clean_frame
  by (simp add: mero_clean_def kumari_frame_def quality_steps_def cap_salary_max_def
        cap_salary_min_def drop_duplicates_def)

lemma quality_steps_single:
  "has_title x \<Longrightarrow>
     quality_steps [x] = [x\<lparr>salary_min := cap (salary_min x), salary_max := cap (salary_max x)\<rparr>]"
  by (simp add: quality_steps_def drop_duplicates_def cap_salary_min_def cap_salary_max_def)

lemma scenario_cells:
  "py_title (py_strip '' backend developer '') = ''Backend Developer''"
  "py_strip ''Backend Developer'' = ''Backend Developer''"
  "py_strip '''' = ''''"
  "standardize_job_level (Some ''fresher'') = ''Entry Level''"
  by code_simp+

lemma scenario_runs:
  "findall_runs salary_run_char ''Nrs. 25,000 - 35,000'' = [''25,000'', ''35,000'']"
  "findall_runs salary_run_char ''Nrs. 15,000,000 - 5,000,000'' = [''15,000,000'', ''5,000,000'']"
  by code_simp+

lemma pyfloat_less [simp]:
  "Finite a < Finite b \<longleftrightarrow> a < b"
  "Finite a < PlusInf"
  "MinusInf < Finite b"
  "MinusInf < PlusInf"
  "\<not> PlusInf < y"
  "\<not> y < MinusInf"
  unfolding less_pyfloat_def by (cases y; auto)+

lemma scenario_salary:
  "extract_salary_min (Some ''Nrs. 25,000 - 35,000'') = Inr (Some (Finite 25000))"
  "extract_salary_max (Some ''Nrs. 25,000 - 35,000'') = Inr (Some (Finite 35000))"
  "extract_salary_min (Some ''Nrs. 15,000,000 - 5,000,000'') = Inr (Some (Finite 15000000))"
  "extract_salary_max (Some ''Nrs. 15,000,000 - 5,000,000'') = Inr (Some (Finite 5000000))"
  unfolding extract_salary_min_def extract_salary_max_def option.case Let_def scenario_runs
  by (simp_all add: float_eval)

lemma scenario_frame:
  "kumari_frame pd [scenario_row t] =
     [kumari_clean_row pd (scenario_row t)
        (case extract_salary_min (Some t) of Inr v \<Rightarrow> v | Inl e \<Rightarrow> None)
        (case extract_salary_max (Some t) of Inr v \<Rightarrow> v | Inl e \<Rightarrow> None)]"
  by (simp add: kumari_frame_def scenario_row_def)

lemma scenario_has_title: "has_title (kumari_clean_row pd (scenario_row t) a b)"
  by (simp add: has_title_def kumari_clean_row_def scenario_row_def str_title_def str_strip_def
        scenario_cells)

lemma kumari_clean_row_salary:
  "salary_min (kumari_clean_row pd r a b) = a"
  "salary_max (kumari_clean_row pd r a b) = b"
  by (simp_all add: kumari_clean_row_def)

lemma scenario_table:
  "clean_and_merge pd [] [scenario_row t] =
     Inr [finalize_row pd
            ((kumari_clean_row pd (scenario_row t)
                (case extract_salary_min (Some t) of Inr v \<Rightarrow> v | Inl e \<Rightarrow> None)
                (case extract_salary_max (Some t) of Inr v \<Rightarrow> v | Inl e \<Rightarrow> None))
              \<lparr>salary_min := cap (case extract_salary_min (Some t) of Inr v \<Rightarrow> v | Inl e \<Rightarrow> None),
               salary_max := cap (case extract_salary_max (Some t) of Inr v \<Rightarrow> v | Inl e \<Rightarrow> None)\<rparr>)]"
  by (simp add: clean_and_merge_frame mero_clean_def scenario_frame
        quality_steps_single [OF scenario_has_title] kumari_clean_row_salary)

text \<open>
  Claim C1. The normalized company is the trimmed company string, and a missing value
  becomes \<open>Unknown Company\<close>; an empty one does not: \<open>fillna\<close> fills null cells only, and
  the trimmed empty string is not null. The scenario of the specification, with company
  \<open>""\<close>, gives the expected title, location, level and salaries, and the company
  \<open>""\<close>.
\<close>

theorem company_empty_stays_empty:
  "company (mero_clean_row pd r) =
     (case m_company r of None \<Rightarrow> Some ''Unknown Company'' | Some s \<Rightarrow> Some (py_strip s))
   \<and> company (kumari_clean_row pd k smin smax) =
     (case k_company k of None \<Rightarrow> Some ''Unknown Company'' | Some s \<Rightarrow> Some (py_strip s))
   \<and> (\<exists>row. clean_and_merge pd [] [scenario_row ''Nrs. 25,000 - 35,000''] = Inr [row]
         \<and> title row = Some ''Backend Developer'' \<and> company row = Some ''''
         \<and> location row = Some ''Kathmandu'' \<and> job_level row = Some ''Entry Level''
         \<and> salary_min row = Some (Finite 25000) \<and> salary_max row = Some (Finite 35000))"
proof (intro conjI)
  show "company (mero_clean_row pd r) =
     (case m_company r of None \<Rightarrow> Some ''Unknown Company'' | Some s \<Rightarrow> Some (py_strip s))"
    by (simp add: mero_clean_row_def fillna_def str_strip_def split: option.splits)
  show "company (kumari_clean_row pd k smin smax) =
     (case k_company k of None \<Rightarrow> Some ''Unknown Company'' | Some s \<Rightarrow> Some (py_strip s))"
    by (simp add: kumari_clean_row_def fillna_def str_strip_def split: option.splits)
  show "\<exists>row. clean_and_merge pd [] [scenario_row ''Nrs. 25,000 - 35,000''] = Inr [row]
         \<and> title row = Some ''Backend Developer'' \<and> company row = Some ''''
         \<and> location row = Some ''Kathmandu'' \<and> job_level row = Some ''Entry Level''
         \<and> salary_min row = Some (Finite 25000) \<and> salary_max row = Some (Finite 35000)"
    unfolding scenario_table scenario_salary
    by (simp add: finalize_row_def kumari_clean_row_def scenario_row_def cap_def str_title_def
          str_strip_def fillna_def scalar_column_def scenario_cells)
qed

section \<open>Duplicates\<close>

lemma drop_duplicates_from_keys:
  "key ` set (drop_duplicates_from seen key rs) = key ` set rs - set seen"
  by (induction rs arbitrary: seen) auto

lemma drop_duplicates_from_distinct:
  "distinct (map key (drop_duplicates_from seen key rs))"
proof (induction rs arbitrary: seen)
  case Nil
  then show ?case by simp
next
  case (Cons r rs)
  have "key r \<notin> key ` set (drop_duplicates_from (key r # seen) key rs)"
    unfolding drop_duplicates_from_keys by simp
  with Cons show ?case by simp
qed

lemma drop_duplicates_from_first:
  "r \<in> set (drop_duplicates_from seen key rs) \<Longrightarrow> find (\<lambda>x. key x = key r) rs = Some r"
proof (induction rs arbitrary: seen)
  case Nil
  then show ?case by simp
next
  case (Cons a rs)
  show ?case
  proof (cases "key a \<in> set seen")
    case True
    with Cons.prems have in_rest: "r \<in> set (drop_duplicates_from seen key rs)" by simp
    then have "key r \<in> key ` set rs - set seen"
      unfolding drop_duplicates_from_keys [symmetric] by (rule imageI)
    with True have "key a \<noteq> key r" by auto
    with Cons.IH [OF in_rest] show ?thesis by simp
  next
    case False
    with Cons.prems
    have "r = a \<or> r \<in> set (drop_duplicates_from (key a # seen) key rs)" by simp
    then show ?thesis
    proof
      assume "r = a"
      then show ?thesis by simp
    next
      assume in_rest: "r \<in> set (drop_duplicates_from (key a # seen) key rs)"
      then have "key r \<in> key ` set rs - set (key a # seen)"
        unfolding drop_duplicates_from_keys [symmetric] by (rule imageI)
      then have "key a \<noteq> key r" by auto
      with Cons.IH [OF in_rest] show ?thesis by simp
    qed
  qed
qed

lemma drop_duplicates_from_subseq: "subseq (drop_duplicates_from seen key rs) rs"
  by (induction rs arbitrary: seen) auto

lemma find_filter: "find P (filter Q xs) = find (\<lambda>x. Q x \<and> P x) xs"
  by (induction xs) auto

lemma cap_keeps_key:
  "map subset_key (cap_salary_max (cap_salary_min df)) = map subset_key df"
  by (simp add: cap_salary_max_def cap_salary_min_def subset_key_def comp_def)

lemma finalize_keeps_key: "subset_key (finalize_row pd r) = subset_key r"
  by (simp add: finalize_row_def subset_key_def)

lemma reconciled_keys:
  "clean_and_merge pd mero kumari = Inr out \<Longrightarrow>
     map subset_key out =
       map subset_key (drop_duplicates subset_key
                         (filter has_title (mero_clean pd mero @ kumari_frame pd kumari)))"
  unfolding clean_and_merge_frame quality_steps_def
  by (auto simp: comp_def finalize_keeps_key cap_keeps_key [unfolded comp_def] cap_keeps_key)

lemma cap_rows:
  "cap_salary_max (cap_salary_min df) =
     map (\<lambda>r. r\<lparr>salary_min := cap (salary_min r), salary_max := cap (salary_max r)\<rparr>) df"
  by (simp add: cap_salary_max_def cap_salary_min_def comp_def)

text \<open>
  \<open>drop_duplicates\<close> in general: the keys of the kept rows are distinct and are all the
  keys of the rows, every kept row is the first row with its key, and the kept rows
  stand in the order of the frame.
\<close>

lemma drop_duplicates_first_of_key:
  "distinct (map key (drop_duplicates key df))"
  "key ` set (drop_duplicates key df) = key ` set df"
  "r \<in> set (drop_duplicates key df) \<Longrightarrow> find (\<lambda>x. key x = key r) df = Some r"
  "subseq (drop_duplicates key df) df"
  unfolding drop_duplicates_def
  by (simp_all add: drop_duplicates_from_distinct drop_duplicates_from_keys
        drop_duplicates_from_first drop_duplicates_from_subseq)

lemma drop_duplicates_from_subset: "set (drop_duplicates_from seen key rs) \<subseteq> set rs"
  by (induction rs arbitrary: seen) auto

lemma drop_duplicates_subset: "set (drop_duplicates key df) \<subseteq> set df"
  unfolding drop_duplicates_def by (rule drop_duplicates_from_subset)

text \<open>Every row of the two cleaned frames has a null \<open>source\<close>.\<close>

lemma frame_source:
  "r \<in> set (mero_clean pd mero @ kumari_frame pd kumari) \<Longrightarrow> source r = None"
  by (auto simp: mero_clean_def kumari_frame_def mero_clean_row_def kumari_clean_row_def
        scalar_before_rows_def)

lemma quality_steps_rows:
  assumes "r \<in> set (quality_steps df)"
  shows "\<exists>x \<in> set df. has_title x \<and> title r = title x \<and> company r = company x
           \<and> source r = source x"
proof -
  from assms obtain x where x: "x \<in> set (drop_duplicates subset_key (filter has_title df))"
    and r: "r = x\<lparr>salary_min := cap (salary_min x), salary_max := cap (salary_max x)\<rparr>"
    unfolding quality_steps_def cap_rows by auto
  from x drop_duplicates_subset [of subset_key "filter has_title df"]
  have "x \<in> set df" "has_title x" by auto
  then show ?thesis using r by (intro bexI [of _ x]) simp_all
qed

lemma stored_rows:
  assumes "clean_and_merge pd mero kumari = Inr out" and "r \<in> set out"
  shows "has_title r \<and> source r = None"
proof -
  from assms obtain y where y: "y \<in> set (quality_steps (mero_clean pd mero @ kumari_frame pd kumari))"
    and r: "r = finalize_row pd y"
    unfolding clean_and_merge_frame by auto
  from quality_steps_rows [OF y] obtain x
    where "x \<in> set (mero_clean pd mero @ kumari_frame pd kumari)" "has_title x"
      "title y = title x" "source y = source x"
    by blast
  with frame_source [of x pd mero kumari] have "has_title y" "source y = None"
    by (simp_all add: has_title_def)
  then show ?thesis unfolding r by (simp add: has_title_def finalize_row_def)
qed

lemma distinct_map_coarser:
  "distinct (map f xs) \<Longrightarrow> (\<And>x y. x \<in> set xs \<Longrightarrow> y \<in> set xs \<Longrightarrow> g x = g y \<Longrightarrow> f x = f y)
     \<Longrightarrow> distinct (map g xs)"
proof (induction xs)
  case Nil
  then show ?case by simp
next
  case (Cons a xs)
  have "g a \<notin> g ` set xs"
  proof
    assume "g a \<in> g ` set xs"
    then obtain y where y: "y \<in> set xs" "g a = g y" by auto
    with Cons.prems(2) [of a y] have "f a = f y" by simp
    with y Cons.prems(1) show False by auto
  qed
  moreover have "distinct (map g xs)"
    using Cons by simp
  ultimately show ?case by simp
qed

lemma stored_pairs_distinct:
  assumes out: "clean_and_merge pd mero kumari = Inr out"
  shows "distinct (map (\<lambda>r. (title r, company r)) out)"
proof (rule distinct_map_coarser [where f = subset_key])
  show "distinct (map subset_key out)"
    unfolding reconciled_keys [OF out]
    by (simp add: drop_duplicates_def drop_duplicates_from_distinct)
  fix x y
  assume "x \<in> set out" "y \<in> set out" "(title x, company x) = (title y, company y)"
  with stored_rows [OF out] show "subset_key x = subset_key y"
    by (simp add: subset_key_def)
qed

lemma posting_cells:
  "py_title ''Dev'' = ''Dev''"
  "py_title ''N/A'' = ''N/A''"
  "py_strip ''Dev'' = ''Dev''"
  "py_strip ''N/A'' = ''N/A''"
  "py_strip ''Acme'' = ''Acme''"
  "py_strip ''Beta'' = ''Beta''"
  by code_simp+

lemma posting_rows:
  "title (mero_clean_row pd (raw_merojob i ''Dev'' c)) = Some ''Dev''"
  "title (kumari_clean_row pd (raw_kumari i ''Dev'' c) a b) = Some ''Dev''"
  "title (kumari_clean_row pd (raw_kumari i ''N/A'' c) a b) = Some ''N/A''"
  "company (mero_clean_row pd (raw_merojob i t ''Acme'')) = Some ''Acme''"
  "company (kumari_clean_row pd (raw_kumari i t ''Acme'') a b) = Some ''Acme''"
  "company (kumari_clean_row pd (raw_kumari i t ''Beta'') a b) = Some ''Beta''"
  "job_id (mero_clean_row pd (raw_merojob i t c)) = Some (''mj_'' @ i)"
  "job_id (kumari_clean_row pd (raw_kumari i t c) a b) = Some (''kj_'' @ i)"
  "source (mero_clean_row pd m) = None"
  "source (kumari_clean_row pd k a b) = None"
  by (simp_all add: mero_clean_row_def kumari_clean_row_def raw_merojob_def raw_kumari_def
        str_title_def str_strip_def fillna_def str_concat_def astype_str_def py_str_def
        scalar_before_rows_def posting_cells)

lemma finalize_cells:
  "source (finalize_row pd r) = source r" "job_id (finalize_row pd r) = job_id r"
  "title (finalize_row pd r) = title r" "company (finalize_row pd r) = company r"
  by (simp_all add: finalize_row_def)

lemma two_sources_table:
  "map (\<lambda>r. (source r, job_id r, title r, company r))
     (map (finalize_row pd)
        (quality_steps
           (mero_clean pd [raw_merojob ''42'' ''Dev'' ''Acme''] @
            kumari_frame pd [raw_kumari ''8'' ''N/A'' ''Acme'', raw_kumari ''9'' ''Dev'' ''Acme'',
                             raw_kumari ''10'' ''Dev'' ''Beta''])))
     = [(None, Some ''mj_42'', Some ''Dev'', Some ''Acme''),
        (None, Some ''kj_10'', Some ''Dev'', Some ''Beta'')]"
  by (simp add: quality_steps_def cap_rows drop_duplicates_def mero_clean_def kumari_frame_def
        has_title_def subset_key_def posting_rows posting_cells finalize_cells)

text \<open>
  Claim C8. The rows without a title are dropped first, and of the remaining rows with
  equal cells in \<open>title\<close>, \<open>company\<close> and \<open>source\<close> the first in the order of the frame
  (the MeroJob rows, then the KumariJob rows) is kept. But \<open>source\<close> is assigned as a
  scalar while the frame has no rows, so it is null in every row of both frames and in
  every stored row: the rows are deduplicated by title and company alone, and no two
  stored rows share title and company, whatever their sources. On a MeroJob row
  \<open>Dev\<close> at \<open>Acme\<close> and the KumariJob rows \<open>N/A\<close> at \<open>Acme\<close>, \<open>Dev\<close> at \<open>Acme\<close> and
  \<open>Dev\<close> at \<open>Beta\<close>, the stored table has the MeroJob row and the last row only: the
  untitled row is dropped by the first step, and the KumariJob row \<open>Dev\<close> at \<open>Acme\<close> is
  dropped as a duplicate of the MeroJob row, against the triple of the claim and the
  comment of the code, same title and company from the same source.
\<close>

theorem drop_duplicates_ignores_source:
  "source (mero_clean_row pd m) = None
   \<and> source (kumari_clean_row pd k smin smax) = None
   \<and> (clean_and_merge pd mero kumari = Inr out \<longrightarrow>
         (\<forall>r \<in> set out. has_title r \<and> source r = None)
       \<and> distinct (map (\<lambda>r. (title r, company r)) out)
       \<and> map subset_key out =
           map subset_key (drop_duplicates subset_key
                             (filter has_title (mero_clean pd mero @ kumari_frame pd kumari))))
   \<and> (\<exists>stored. clean_and_merge text_pandas [raw_merojob ''42'' ''Dev'' ''Acme'']
                   [raw_kumari ''8'' ''N/A'' ''Acme'', raw_kumari ''9'' ''Dev'' ''Acme'',
                    raw_kumari ''10'' ''Dev'' ''Beta''] = Inr stored
         \<and> map (\<lambda>r. (source r, job_id r, title r, company r)) stored
             = [(None, Some ''mj_42'', Some ''Dev'', Some ''Acme''),
                (None, Some ''kj_10'', Some ''Dev'', Some ''Beta'')])"
proof (intro conjI impI ballI)
  show "source (mero_clean_row pd m) = None" by (rule posting_rows)
  show "source (kumari_clean_row pd k smin smax) = None" by (rule posting_rows)
  show "\<exists>stored. clean_and_merge text_pandas [raw_merojob ''42'' ''Dev'' ''Acme'']
                   [raw_kumari ''8'' ''N/A'' ''Acme'', raw_kumari ''9'' ''Dev'' ''Acme'',
                    raw_kumari ''10'' ''Dev'' ''Beta''] = Inr stored
         \<and> map (\<lambda>r. (source r, job_id r, title r, company r)) stored
             = [(None, Some ''mj_42'', Some ''Dev'', Some ''Acme''),
                (None, Some ''kj_10'', Some ''Dev'', Some ''Beta'')]"
  proof (intro exI conjI)
    show "clean_and_merge text_pandas [raw_merojob ''42'' ''Dev'' ''Acme'']
            [raw_kumari ''8'' ''N/A'' ''Acme'', raw_kumari ''9'' ''Dev'' ''Acme'',
             raw_kumari ''10'' ''Dev'' ''Beta'']
          = Inr (map (finalize_row text_pandas)
                  (quality_steps
                     (mero_clean text_pandas [raw_merojob ''42'' ''Dev'' ''Acme''] @
                      kumari_frame text_pandas
                        [raw_kumari ''8'' ''N/A'' ''Acme'', raw_kumari ''9'' ''Dev'' ''Acme'',
                         raw_kumari ''10'' ''Dev'' ''Beta''])))"
      by (rule clean_and_merge_frame)
    show "map (\<lambda>r. (source r, job_id r, title r, company r))
            (map (finalize_row text_pandas)
               (quality_steps
                  (mero_clean text_pandas [raw_merojob ''42'' ''Dev'' ''Acme''] @
                   kumari_frame text_pandas
                     [raw_kumari ''8'' ''N/A'' ''Acme'', raw_kumari ''9'' ''Dev'' ''Acme'',
                      raw_kumari ''10'' ''Dev'' ''Beta''])))
          = [(None, Some ''mj_42'', Some ''Dev'', Some ''Acme''),
             (None, Some ''kj_10'', Some ''Dev'', Some ''Beta'')]"
      by (rule two_sources_table)
  qed
next
  fix r
  assume out: "clean_and_merge pd mero kumari = Inr out" and r: "r \<in> set out"
  show "has_title r" "source r = None" using stored_rows [OF out r] by simp_all
next
  assume out: "clean_and_merge pd mero kumari = Inr out"
  show "distinct (map (\<lambda>r. (title r, company r)) out)" by (rule stored_pairs_distinct [OF out])
  show "map subset_key out =
           map subset_key (drop_duplicates subset_key
                             (filter has_title (mero_clean pd mero @ kumari_frame pd kumari)))"
    by (rule reconciled_keys [OF out])
qed

text \<open>The theorem on the two tables above.\<close>

theorem drop_duplicates_ignores_source_witness:
  "\<exists>stored. clean_and_merge text_pandas [raw_merojob ''42'' ''Dev'' ''Acme'']
              [raw_kumari ''8'' ''N/A'' ''Acme'', raw_kumari ''9'' ''Dev'' ''Acme'',
               raw_kumari ''10'' ''Dev'' ''Beta''] = Inr stored
     \<and> length stored = 2
     \<and> (\<forall>r \<in> set stored. has_title r \<and> source r = None)
     \<and> distinct (map (\<lambda>r. (title r, company r)) stored)"
proof -
  let ?mero = "[raw_merojob ''42'' ''Dev'' ''Acme'']"
  let ?kumari = "[raw_kumari ''8'' ''N/A'' ''Acme'', raw_kumari ''9'' ''Dev'' ''Acme'',
                  raw_kumari ''10'' ''Dev'' ''Beta'']"
  let ?out = "map (finalize_row text_pandas)
                (quality_steps (mero_clean text_pandas ?mero @ kumari_frame text_pandas ?kumari))"
  have out: "clean_and_merge text_pandas ?mero ?kumari = Inr ?out"
    by (rule clean_and_merge_frame)
  have "length (map (\<lambda>r. (source r, job_id r, title r, company r)) ?out) = 2"
    unfolding two_sources_table by simp
  then have len: "length ?out = 2" by (simp only: length_map)
  note stored = drop_duplicates_ignores_source [of text_pandas _ _ _ _ ?mero ?kumari ?out,
      THEN conjunct2, THEN conjunct2, THEN conjunct1, THEN mp, OF out]
  from out len stored [THEN conjunct1] stored [THEN conjunct2, THEN conjunct1]
  show ?thesis by (intro exI [of _ ?out] conjI)
qed

section \<open>Outliers\<close>

lemma cap_cases:
  "cap v = (if \<exists>x. v = Some x \<and> x > Finite 10000000 then None else v)"
  by (cases v) (simp_all add: cap_def)

lemma cap_bound: "cap v = Some x \<Longrightarrow> x \<le> Finite 10000000"
  by (cases v) (auto simp: cap_def split: if_splits)

lemma finalize_salary:
  "salary_min (finalize_row pd r) = salary_min r" "salary_max (finalize_row pd r) = salary_max r"
  by (simp_all add: finalize_row_def)

lemma reconciled_salaries:
  "clean_and_merge pd mero kumari = Inr out \<Longrightarrow>
     map (\<lambda>r. (salary_min r, salary_max r)) out =
       map (\<lambda>r. (cap (salary_min r), cap (salary_max r)))
         (drop_duplicates subset_key (filter has_title (mero_clean pd mero @ kumari_frame pd kumari)))"
  unfolding clean_and_merge_frame quality_steps_def cap_rows
  by (auto simp: comp_def finalize_salary)

lemma reconciled_salary_bound:
  assumes "clean_and_merge pd mero kumari = Inr out" and "r \<in> set out"
  shows "(salary_min r = Some x \<longrightarrow> x \<le> Finite 10000000) \<and> (salary_max r = Some x \<longrightarrow> x \<le> Finite 10000000)"
  using assms unfolding clean_and_merge_frame quality_steps_def cap_rows
  by (auto simp: finalize_salary) (drule cap_bound, assumption)+

text \<open>
  Claim C7. The third quality step keeps the rows and their order; in each row a
  \<open>salary_min\<close> above 10,000,000 becomes null and any other stays, the same for
  \<open>salary_max\<close>, each cell by its own value, and no other cell changes. So in the
  table \<open>clean_and_merge\<close> returns no salary exceeds 10,000,000 and each salary cell is
  the capped cell of its row. 15,000,000 becomes null; 9,999,999 and 10,000,000 stay.
  The cells are floats, compared as floats: \<open>inf\<close> exceeds the threshold and becomes
  null as well.
\<close>

theorem cap_outliers_per_field:
  "length (cap_salary_max (cap_salary_min df)) = length df
   \<and> (\<forall>i < length df.
         salary_min (cap_salary_max (cap_salary_min df) ! i)
           = (if \<exists>x. salary_min (df ! i) = Some x \<and> x > Finite 10000000 then None
              else salary_min (df ! i))
       \<and> salary_max (cap_salary_max (cap_salary_min df) ! i)
           = (if \<exists>x. salary_max (df ! i) = Some x \<and> x > Finite 10000000 then None
              else salary_max (df ! i))
       \<and> cap_salary_max (cap_salary_min df) ! i
           = (df ! i)\<lparr>salary_min := salary_min (cap_salary_max (cap_salary_min df) ! i),
                      salary_max := salary_max (cap_salary_max (cap_salary_min df) ! i)\<rparr>)
   \<and> (clean_and_merge pd mero kumari = Inr out \<longrightarrow>
         (\<forall>r \<in> set out. (\<forall>x. salary_min r = Some x \<longrightarrow> x \<le> Finite 10000000)
                        \<and> (\<forall>x. salary_max r = Some x \<longrightarrow> x \<le> Finite 10000000))
       \<and> map (\<lambda>r. (salary_min r, salary_max r)) out =
           map (\<lambda>r. (cap (salary_min r), cap (salary_max r)))
             (drop_duplicates subset_key
                (filter has_title (mero_clean pd mero @ kumari_frame pd kumari))))
   \<and> cap (Some (Finite 15000000)) = None \<and> cap (Some (Finite 9999999)) = Some (Finite 9999999)
   \<and> cap (Some (Finite 10000000)) = Some (Finite 10000000) \<and> cap None = None
   \<and> cap (Some PlusInf) = None"
proof (intro conjI allI impI ballI)
  show "length (cap_salary_max (cap_salary_min df)) = length df"
    by (simp add: cap_rows)
  show "salary_min (cap_salary_max (cap_salary_min df) ! i)
          = (if \<exists>x. salary_min (df ! i) = Some x \<and> x > Finite 10000000 then None
             else salary_min (df ! i))" if "i < length df" for i
    using that by (simp add: cap_rows cap_cases)
  show "salary_max (cap_salary_max (cap_salary_min df) ! i)
          = (if \<exists>x. salary_max (df ! i) = Some x \<and> x > Finite 10000000 then None
             else salary_max (df ! i))" if "i < length df" for i
    using that by (simp add: cap_rows cap_cases)
  show "cap_salary_max (cap_salary_min df) ! i
          = (df ! i)\<lparr>salary_min := salary_min (cap_salary_max (cap_salary_min df) ! i),
                     salary_max := salary_max (cap_salary_max (cap_salary_min df) ! i)\<rparr>"
    if "i < length df" for i
    using that by (simp add: cap_rows)
next
  fix r x
  assume out: "clean_and_merge pd mero kumari = Inr out" and r: "r \<in> set out"
  show "salary_min r = Some x \<Longrightarrow> x \<le> Finite 10000000"
    using reconciled_salary_bound [OF out r, of x] by simp
  show "salary_max r = Some x \<Longrightarrow> x \<le> Finite 10000000"
    using reconciled_salary_bound [OF out r, of x] by simp
next
  assume out: "clean_and_merge pd mero kumari = Inr out"
  show "map (\<lambda>r. (salary_min r, salary_max r)) out =
           map (\<lambda>r. (cap (salary_min r), cap (salary_max r)))
             (drop_duplicates subset_key
                (filter has_title (mero_clean pd mero @ kumari_frame pd kumari)))"
    by (rule reconciled_salaries [OF out])
qed (simp_all add: cap_def)

text \<open>The theorem on the scenario row with the salary string \<open>Nrs. 15,000,000 - 5,000,000\<close>:
  the minimum is capped, the maximum is not.\<close>

theorem cap_outliers_per_field_witness:
  "(0::nat) < length (kumari_frame text_pandas [scenario_row ''Nrs. 15,000,000 - 5,000,000''])
   \<and> salary_min (cap_salary_max (cap_salary_min
        (kumari_frame text_pandas [scenario_row ''Nrs. 15,000,000 - 5,000,000''])) ! 0) = None
   \<and> salary_max (cap_salary_max (cap_salary_min
        (kumari_frame text_pandas [scenario_row ''Nrs. 15,000,000 - 5,000,000''])) ! 0) = Some (Finite 5000000)
   \<and> (\<exists>out. clean_and_merge text_pandas [] [scenario_row ''Nrs. 15,000,000 - 5,000,000''] = Inr out
          \<and> map (\<lambda>r. (salary_min r, salary_max r)) out = [(None, Some (Finite 5000000))]
          \<and> (\<forall>r \<in> set out. (\<forall>x. salary_min r = Some x \<longrightarrow> x \<le> Finite 10000000)
                         \<and> (\<forall>x. salary_max r = Some x \<longrightarrow> x \<le> Finite 10000000)))"
proof -
  let ?A = "scenario_row ''Nrs. 15,000,000 - 5,000,000''"
  let ?rowA = "kumari_clean_row text_pandas ?A (Some (Finite 15000000)) (Some (Finite 5000000))"
  let ?out = "map (finalize_row text_pandas)
                (quality_steps (mero_clean text_pandas [] @ kumari_frame text_pandas [?A]))"
  have frame: "kumari_frame text_pandas [?A] = [?rowA]"
    using scenario_frame [of text_pandas "''Nrs. 15,000,000 - 5,000,000''"]
    by (simp add: scenario_salary)
  have whole: "mero_clean text_pandas [] @ kumari_frame text_pandas [?A] = [?rowA]"
    by (simp add: mero_clean_def frame)
  have kept: "drop_duplicates subset_key (filter has_title [?rowA]) = [?rowA]"
    by (simp add: drop_duplicates_def scenario_has_title)
  have out: "clean_and_merge text_pandas [] [?A] = Inr ?out"
    by (rule clean_and_merge_frame)
  have len: "(0::nat) < length [?rowA]" by simp
  note inst = cap_outliers_per_field [of "[?rowA]" text_pandas "[]" "[?A]" "?out"]
  note cells = inst [THEN conjunct2, THEN conjunct1, THEN spec, THEN mp, OF len]
  have smin: "salary_min (cap_salary_max (cap_salary_min [?rowA]) ! 0) = None"
    using cells [THEN conjunct1] by (simp add: kumari_clean_row_salary)
  have smax: "salary_max (cap_salary_max (cap_salary_min [?rowA]) ! 0) = Some (Finite 5000000)"
    using cells [THEN conjunct2, THEN conjunct1] by (simp add: kumari_clean_row_salary)
  note stored = inst [THEN conjunct2, THEN conjunct2, THEN conjunct1, THEN mp, OF out]
  have pairs: "map (\<lambda>r. (salary_min r, salary_max r)) ?out = [(None, Some (Finite 5000000))]"
    using stored [THEN conjunct2] unfolding whole kept
    by (simp add: kumari_clean_row_salary cap_def)
  show ?thesis
  proof (intro conjI)
    show "(0::nat) < length (kumari_frame text_pandas [?A])"
      unfolding frame by (rule len)
    show "salary_min (cap_salary_max (cap_salary_min (kumari_frame text_pandas [?A])) ! 0) = None"
      unfolding frame by (rule smin)
    show "salary_max (cap_salary_max (cap_salary_min (kumari_frame text_pandas [?A])) ! 0)
            = Some (Finite 5000000)"
      unfolding frame by (rule smax)
    show "\<exists>out. clean_and_merge text_pandas [] [?A] = Inr out
          \<and> map (\<lambda>r. (salary_min r, salary_max r)) out = [(None, Some (Finite 5000000))]
          \<and> (\<forall>r \<in> set out. (\<forall>x. salary_min r = Some x \<longrightarrow> x \<le> Finite 10000000)
                         \<and> (\<forall>x. salary_max r = Some x \<longrightarrow> x \<le> Finite 10000000))"
      using out pairs stored [THEN conjunct1] by (intro exI [of _ ?out] conjI)
  qed
qed

section \<open>The description list of a card\<close>

lemma scan_items_last:
  "scan_items lis (s, e) =
     (if filter (\<lambda>t. \<not> (py_in ''Year'' t \<or> py_in ''Fresher'' t)
                     \<and> (py_in ''Nrs.'' t \<or> py_in ''Negotiable'' t)) lis = [] then s
      else last (filter (\<lambda>t. \<not> (py_in ''Year'' t \<or> py_in ''Fresher'' t)
                     \<and> (py_in ''Nrs.'' t \<or> py_in ''Negotiable'' t)) lis),
      if filter (\<lambda>t. py_in ''Year'' t \<or> py_in ''Fresher'' t) lis = [] then e
      else last (filter (\<lambda>t. py_in ''Year'' t \<or> py_in ''Fresher'' t) lis))"
proof (induction lis arbitrary: s e)
  case Nil
  then show ?case by simp
next
  case (Cons t lis)
  show ?case
  proof (cases "py_in ''Year'' t \<or> py_in ''Fresher'' t")
    case True
    then show ?thesis by (auto simp: Cons.IH)
  next
    case False
    then show ?thesis by (auto simp: Cons.IH)
  qed
qed

lemma process_card_new:
  assumes "card_fields c = Inr (jt, co, jl)" and "\<not> (jt = ''N/A'' \<and> jl = ''N/A'')"
  shows "process_card c [] =
     Inr [(data_jobid c, new_record jt co jl (fst (scan_description (description c)))
                            (snd (scan_description (description c))))]"
  using assms by (auto simp: process_card_def split: prod.splits)

text \<open>
  Claim C2 as stated fails: the loop over the list items has no \<open>break\<close>, so of two
  items that mention a year the second is the experience, and of two salary items the
  second is the salary.
\<close>

theorem scan_description_first_counterexample:
  "py_in ''Year'' ''2 Years'' \<and> py_in ''Year'' ''5 Years''
   \<and> snd (scan_description (Some [''2 Years'', ''5 Years''])) = ''5 Years''
   \<and> py_in ''Nrs.'' ''Nrs. 10,000'' \<and> py_in ''Negotiable'' ''Negotiable''
   \<and> fst (scan_description (Some [''Nrs. 10,000'', ''Negotiable''])) = ''Negotiable''"
  by code_simp

text \<open>
  Claim C2, amended. For every description list, the experience text is the last item
  that contains \<open>Year\<close> or \<open>Fresher\<close>, and the salary text is the last item that
  contains \<open>Nrs.\<close> or \<open>Negotiable\<close> and neither \<open>Year\<close> nor \<open>Fresher\<close>; each is
  \<open>N/A\<close> when there is no such item or no list. These are the values stored for a card
  whose job id is new.
\<close>

theorem scan_description_last_match:
  "scan_description (Some lis) =
     (if filter (\<lambda>t. \<not> (py_in ''Year'' t \<or> py_in ''Fresher'' t)
                     \<and> (py_in ''Nrs.'' t \<or> py_in ''Negotiable'' t)) lis = [] then ''N/A''
      else last (filter (\<lambda>t. \<not> (py_in ''Year'' t \<or> py_in ''Fresher'' t)
                     \<and> (py_in ''Nrs.'' t \<or> py_in ''Negotiable'' t)) lis),
      if filter (\<lambda>t. py_in ''Year'' t \<or> py_in ''Fresher'' t) lis = [] then ''N/A''
      else last (filter (\<lambda>t. py_in ''Year'' t \<or> py_in ''Fresher'' t) lis))
   \<and> scan_description None = (''N/A'', ''N/A'')
   \<and> (card_fields c = Inr (jt, co, jl) \<and> \<not> (jt = ''N/A'' \<and> jl = ''N/A'') \<longrightarrow>
        process_card c [] =
          Inr [(data_jobid c, new_record jt co jl (fst (scan_description (description c)))
                                 (snd (scan_description (description c))))])"
  using process_card_new [of c jt co jl]
  by (simp add: scan_description_def scan_items_last)

text \<open>The theorem on a card with two experience items and two salary items.\<close>

theorem scan_description_last_match_witness:
  "scan_description (Some [''Full Time'', ''2 Years'', ''Nrs. 10,000'', ''5 Years'', ''Negotiable''])
     = (''Negotiable'', ''5 Years'')
   \<and> card_fields \<lparr> data_jobid = ''7'', h5 = Some (''Developer'', Some (Some ''/job/7'')),
                     h6 = Some ''Acme'', job_info = None, featured_job_company_name = None,
                     featured_job_company_logo_alt = None,
                     description = Some [''2 Years'', ''5 Years''] \<rparr>
       = Inr (''Developer'', ''Acme'', ''/job/7'')
   \<and> \<not> (''Developer'' = ''N/A'' \<and> ''/job/7'' = ''N/A'')
   \<and> process_card \<lparr> data_jobid = ''7'', h5 = Some (''Developer'', Some (Some ''/job/7'')),
                      h6 = Some ''Acme'', job_info = None, featured_job_company_name = None,
                      featured_job_company_logo_alt = None,
                      description = Some [''2 Years'', ''5 Years''] \<rparr> []
       = Inr [(''7'', new_record ''Developer'' ''Acme'' ''/job/7'' ''N/A'' ''5 Years'')]"
proof -
  let ?lis = "[''Full Time'', ''2 Years'', ''Nrs. 10,000'', ''5 Years'', ''Negotiable'']"
  let ?c = "\<lparr> data_jobid = ''7'', h5 = Some (''Developer'', Some (Some ''/job/7'')),
              h6 = Some ''Acme'', job_info = None, featured_job_company_name = None,
              featured_job_company_logo_alt = None,
              description = Some [''2 Years'', ''5 Years''] \<rparr>"
  have sal: "filter (\<lambda>t. \<not> (py_in ''Year'' t \<or> py_in ''Fresher'' t)
                     \<and> (py_in ''Nrs.'' t \<or> py_in ''Negotiable'' t)) ?lis
               = [''Nrs. 10,000'', ''Negotiable'']"
    by code_simp
  have exp: "filter (\<lambda>t. py_in ''Year'' t \<or> py_in ''Fresher'' t) ?lis = [''2 Years'', ''5 Years'']"
    by code_simp
  have sal2: "filter (\<lambda>t. \<not> (py_in ''Year'' t \<or> py_in ''Fresher'' t)
                     \<and> (py_in ''Nrs.'' t \<or> py_in ''Negotiable'' t)) [''2 Years'', ''5 Years''] = []"
    by code_simp
  have exp2: "filter (\<lambda>t. py_in ''Year'' t \<or> py_in ''Fresher'' t) [''2 Years'', ''5 Years'']
                = [''2 Years'', ''5 Years'']"
    by code_simp
  have fields: "card_fields ?c = Inr (''Developer'', ''Acme'', ''/job/7'')"
    by (simp add: card_fields_def)
  have kept: "\<not> (''Developer'' = ''N/A'' \<and> ''/job/7'' = ''N/A'')" by simp
  note inst1 = scan_description_last_match [of ?lis ?c "''Developer''" "''Acme''" "''/job/7''"]
  have first: "scan_description (Some ?lis) = (''Negotiable'', ''5 Years'')"
    using inst1 [THEN conjunct1] unfolding sal exp by simp
  note inst2 = scan_description_last_match [of "[''2 Years'', ''5 Years'']" ?c
      "''Developer''" "''Acme''" "''/job/7''"]
  have scan2: "scan_description (Some [''2 Years'', ''5 Years'']) = (''N/A'', ''5 Years'')"
    using inst2 [THEN conjunct1] unfolding sal2 exp2 by simp
  have "process_card ?c [] =
          Inr [(data_jobid ?c, new_record ''Developer'' ''Acme'' ''/job/7''
                  (fst (scan_description (description ?c))) (snd (scan_description (description ?c))))]"
    using inst2 [THEN conjunct2, THEN conjunct2, THEN mp, OF conjI [OF fields kept]] .
  then have card: "process_card ?c [] =
      Inr [(''7'', new_record ''Developer'' ''Acme'' ''/job/7'' ''N/A'' ''5 Years'')]"
    by (simp add: scan2)
  from first fields kept card show ?thesis by (intro conjI)
qed

section \<open>Merging the cards of one job\<close>

lemma spec_placeholder_NA: "spec_placeholder ''N/A''"
  by code_simp

lemma merge_duplicate_fields:
  assumes "current ''Company'' \<noteq> None"
  shows "\<exists>merged. merge_duplicate current co sa ex = Inr merged
     \<and> (\<forall>f. merged f =
          (if f \<in> {''Company'', ''Salary'', ''Experience''}
               \<and> dict_get current f ''N/A'' = ''N/A''
               \<and> new_record jt co jl sa ex f \<noteq> Some ''N/A''
           then new_record jt co jl sa ex f else current f))"
proof -
  from assms obtain cc where cc: "current ''Company'' = Some cc" by blast
  let ?c1 = "if cc = ''N/A'' \<and> co \<noteq> ''N/A'' then current(''Company'' \<mapsto> co) else current"
  let ?c2 = "if dict_get ?c1 ''Salary'' ''N/A'' = ''N/A'' \<and> sa \<noteq> ''N/A''
             then ?c1(''Salary'' \<mapsto> sa) else ?c1"
  let ?c3 = "if dict_get ?c2 ''Experience'' ''N/A'' = ''N/A'' \<and> ex \<noteq> ''N/A''
             then ?c2(''Experience'' \<mapsto> ex) else ?c2"
  have res: "merge_duplicate current co sa ex = Inr ?c3"
    by (simp add: merge_duplicate_def cc Let_def)
  have "?c3 f =
          (if f \<in> {''Company'', ''Salary'', ''Experience''}
               \<and> dict_get current f ''N/A'' = ''N/A''
               \<and> new_record jt co jl sa ex f \<noteq> Some ''N/A''
           then new_record jt co jl sa ex f else current f)" for f
    by (simp add: dict_get_def new_record_def cc split: option.splits)
  with res show ?thesis by blast
qed

lemma process_card_again:
  assumes "map_of jobs (data_jobid c) = Some current"
    and "card_fields c = Inr (jt, co, jl)" and "\<not> (jt = ''N/A'' \<and> jl = ''N/A'')"
    and "scan_description (description c) = (sa, ex)"
    and "merge_duplicate current co sa ex = Inr merged"
  shows "process_card c jobs = Inr (AList.update (data_jobid c) merged jobs)"
  using assms by (auto simp: process_card_def)

text \<open>
  Claim C3 as stated fails: the merge knows one placeholder, the literal \<open>N/A\<close>, and
  three fields. An empty company is kept when a later card brings a name, and an empty
  company of a later card replaces \<open>N/A\<close>.
\<close>

theorem merge_placeholder_counterexample:
  "spec_placeholder '''' \<and> \<not> spec_placeholder ''Acme''
   \<and> merged_field (merge_duplicate (new_record ''Dev'' '''' ''/job/1'' ''N/A'' ''N/A'')
                     ''Acme'' ''N/A'' ''N/A'') ''Company'' = Some ''''
   \<and> spec_placeholder ''N/A''
   \<and> merged_field (merge_duplicate (new_record ''Dev'' ''N/A'' ''/job/1'' ''N/A'' ''N/A'')
                     '''' ''N/A'' ''N/A'') ''Company'' = Some ''''"
  by code_simp

text \<open>
  Claim C3, amended. For every stored record with a company and every later card of
  the same job id, the merge raises nothing and overwrites a field exactly when the
  field is \<open>Company\<close>, \<open>Salary\<close> or \<open>Experience\<close>, the stored value is the literal
  \<open>N/A\<close> (or, for the last two, absent) and the card's value is not the literal
  \<open>N/A\<close>; \<open>Job Title\<close>, \<open>Link\<close> and every other field keep the stored value. In
  particular a stored value that is not a placeholder is kept whatever the card
  brings. The merged record replaces the stored one under the job id.
\<close>

theorem merge_duplicate_fills_na:
  "current ''Company'' \<noteq> None \<longrightarrow>
     (\<exists>merged. merge_duplicate current co sa ex = Inr merged
        \<and> (\<forall>f. merged f =
             (if f \<in> {''Company'', ''Salary'', ''Experience''}
                  \<and> dict_get current f ''N/A'' = ''N/A''
                  \<and> new_record jt co jl sa ex f \<noteq> Some ''N/A''
              then new_record jt co jl sa ex f else current f))
        \<and> (\<forall>f v. current f = Some v \<and> \<not> spec_placeholder v \<longrightarrow> merged f = Some v)
        \<and> (map_of jobs (data_jobid c) = Some current \<and> card_fields c = Inr (jt, co, jl)
             \<and> \<not> (jt = ''N/A'' \<and> jl = ''N/A'') \<and> scan_description (description c) = (sa, ex)
             \<longrightarrow> process_card c jobs = Inr (AList.update (data_jobid c) merged jobs)))"
proof
  assume "current ''Company'' \<noteq> None"
  from merge_duplicate_fields [where current = current and co = co and sa = sa and ex = ex
      and jt = jt and jl = jl, OF this]
  obtain merged
    where res: "merge_duplicate current co sa ex = Inr merged"
      and fields: "\<And>f. merged f =
             (if f \<in> {''Company'', ''Salary'', ''Experience''}
                  \<and> dict_get current f ''N/A'' = ''N/A''
                  \<and> new_record jt co jl sa ex f \<noteq> Some ''N/A''
              then new_record jt co jl sa ex f else current f)"
    by blast
  have kept: "merged f = Some v" if "current f = Some v" and "\<not> spec_placeholder v" for f v
  proof -
    from that spec_placeholder_NA have "v \<noteq> ''N/A''" by blast
    with that(1) show ?thesis by (simp add: fields dict_get_def)
  qed
  have card: "process_card c jobs = Inr (AList.update (data_jobid c) merged jobs)"
    if "map_of jobs (data_jobid c) = Some current \<and> card_fields c = Inr (jt, co, jl)
          \<and> \<not> (jt = ''N/A'' \<and> jl = ''N/A'') \<and> scan_description (description c) = (sa, ex)"
    using that res by (intro process_card_again) blast+
  show "\<exists>merged. merge_duplicate current co sa ex = Inr merged
        \<and> (\<forall>f. merged f =
             (if f \<in> {''Company'', ''Salary'', ''Experience''}
                  \<and> dict_get current f ''N/A'' = ''N/A''
                  \<and> new_record jt co jl sa ex f \<noteq> Some ''N/A''
              then new_record jt co jl sa ex f else current f))
        \<and> (\<forall>f v. current f = Some v \<and> \<not> spec_placeholder v \<longrightarrow> merged f = Some v)
        \<and> (map_of jobs (data_jobid c) = Some current \<and> card_fields c = Inr (jt, co, jl)
             \<and> \<not> (jt = ''N/A'' \<and> jl = ''N/A'') \<and> scan_description (description c) = (sa, ex)
             \<longrightarrow> process_card c jobs = Inr (AList.update (data_jobid c) merged jobs))"
  proof (rule exI [of _ merged], intro conjI allI impI)
    show "merge_duplicate current co sa ex = Inr merged" by (rule res)
    show "merged f =
             (if f \<in> {''Company'', ''Salary'', ''Experience''}
                  \<and> dict_get current f ''N/A'' = ''N/A''
                  \<and> new_record jt co jl sa ex f \<noteq> Some ''N/A''
              then new_record jt co jl sa ex f else current f)" for f
      by (rule fields)
    show "merged f = Some v" if "current f = Some v \<and> \<not> spec_placeholder v" for f v
      using that kept by blast
    show "process_card c jobs = Inr (AList.update (data_jobid c) merged jobs)"
      if "map_of jobs (data_jobid c) = Some current \<and> card_fields c = Inr (jt, co, jl)
          \<and> \<not> (jt = ''N/A'' \<and> jl = ''N/A'') \<and> scan_description (description c) = (sa, ex)"
      using that by (rule card)
  qed
qed

text \<open>The theorem on a stored record without company and salary and a later card of the
  same job that has both, and another experience.\<close>

theorem merge_duplicate_fills_na_witness:
  "new_record ''Dev'' ''N/A'' ''/job/7'' ''N/A'' ''1 Year'' ''Company'' \<noteq> None
   \<and> map (merged_field (merge_duplicate (new_record ''Dev'' ''N/A'' ''/job/7'' ''N/A'' ''1 Year'')
                           ''Acme'' ''Negotiable'' ''3 Years''))
         [''Job Title'', ''Company'', ''Link'', ''Salary'', ''Experience'']
       = [Some ''Dev'', Some ''Acme'', Some ''/job/7'', Some ''Negotiable'', Some ''1 Year'']
   \<and> \<not> spec_placeholder ''1 Year''
   \<and> (case process_card
              \<lparr> data_jobid = ''7'', h5 = Some (''Developer'', Some (Some ''/job/7'')),
                h6 = Some ''Acme'', job_info = None, featured_job_company_name = None,
                featured_job_company_logo_alt = None,
                description = Some [''3 Years'', ''Negotiable''] \<rparr>
              [(''7'', new_record ''Dev'' ''N/A'' ''/job/7'' ''N/A'' ''1 Year'')] of
         Inr js \<Rightarrow> map (\<lambda>(k, r). (k, r ''Job Title'', r ''Company'', r ''Salary'', r ''Experience'')) js
       | Inl e \<Rightarrow> [])
       = [(''7'', Some ''Dev'', Some ''Acme'', Some ''Negotiable'', Some ''1 Year'')]"
proof -
  let ?cur = "new_record ''Dev'' ''N/A'' ''/job/7'' ''N/A'' ''1 Year''"
  let ?c = "\<lparr> data_jobid = ''7'', h5 = Some (''Developer'', Some (Some ''/job/7'')),
              h6 = Some ''Acme'', job_info = None, featured_job_company_name = None,
              featured_job_company_logo_alt = None,
              description = Some [''3 Years'', ''Negotiable''] \<rparr>"
  have comp: "?cur ''Company'' \<noteq> None" by (simp add: new_record_def)
  have np: "\<not> spec_placeholder ''1 Year''" by code_simp
  have scan: "scan_description (description ?c) = (''Negotiable'', ''3 Years'')" by code_simp
  have fields: "card_fields ?c = Inr (''Developer'', ''Acme'', ''/job/7'')"
    by (simp add: card_fields_def)
  note inst = merge_duplicate_fills_na [where current = ?cur and co = "''Acme''"
      and sa = "''Negotiable''" and ex = "''3 Years''" and jt = "''Developer''"
      and jl = "''/job/7''" and jobs = "[(''7'', ?cur)]" and c = ?c, THEN mp, OF comp]
  then obtain merged
    where res: "merge_duplicate ?cur ''Acme'' ''Negotiable'' ''3 Years'' = Inr merged"
      and each: "\<And>f. merged f =
             (if f \<in> {''Company'', ''Salary'', ''Experience''}
                  \<and> dict_get ?cur f ''N/A'' = ''N/A''
                  \<and> new_record ''Developer'' ''Acme'' ''/job/7'' ''Negotiable'' ''3 Years'' f
                       \<noteq> Some ''N/A''
              then new_record ''Developer'' ''Acme'' ''/job/7'' ''Negotiable'' ''3 Years'' f
              else ?cur f)"
      and card: "map_of [(''7'', ?cur)] (data_jobid ?c) = Some ?cur
             \<and> card_fields ?c = Inr (''Developer'', ''Acme'', ''/job/7'')
             \<and> \<not> (''Developer'' = ''N/A'' \<and> ''/job/7'' = ''N/A'')
             \<and> scan_description (description ?c) = (''Negotiable'', ''3 Years'')
             \<longrightarrow> process_card ?c [(''7'', ?cur)]
                   = Inr (AList.update (data_jobid ?c) merged [(''7'', ?cur)])"
    by blast
  have vals: "merged ''Job Title'' = Some ''Dev''" "merged ''Company'' = Some ''Acme''"
    "merged ''Link'' = Some ''/job/7''" "merged ''Salary'' = Some ''Negotiable''"
    "merged ''Experience'' = Some ''1 Year''"
    by (simp_all add: each dict_get_def new_record_def)
  have "process_card ?c [(''7'', ?cur)] = Inr (AList.update (data_jobid ?c) merged [(''7'', ?cur)])"
    using card fields scan by simp
  then have stored: "process_card ?c [(''7'', ?cur)] = Inr [(''7'', merged)]"
    by simp
  show ?thesis
    unfolding res stored using comp np by (simp add: merged_field_def vals)
qed

section \<open>Insert if absent\<close>

lemma insert_or_ignore_Inr:
  "insert_or_ignore key row tbl =
     Inr (if list_ex (\<lambda>r. pk_collides (key r) (key row)) tbl then tbl else tbl @ [row])"
  by (simp add: insert_or_ignore_def)

lemma insert_all_Nil: "insert_all key [] tbl = tbl"
  by (simp add: insert_all_def)

lemma insert_all_Cons:
  "insert_all key (row # rows) tbl =
     insert_all key rows
       (if list_ex (\<lambda>r. pk_collides (key r) (key row)) tbl then tbl else tbl @ [row])"
  by (simp add: insert_all_def insert_or_ignore_Inr)

lemma collides_iff:
  "fst (key row) \<noteq> None \<and> snd (key row) \<noteq> None \<Longrightarrow>
     list_ex (\<lambda>r. pk_collides (key r) (key row)) tbl \<longleftrightarrow> key row \<in> key ` set tbl"
proof -
  assume full: "fst (key row) \<noteq> None \<and> snd (key row) \<noteq> None"
  have "pk_collides (key r) (key row) \<longleftrightarrow> key r = key row" for r
    using full by (cases "key r = key row") (simp_all add: pk_collides_def)
  then have "list_ex (\<lambda>r. pk_collides (key r) (key row)) tbl \<longleftrightarrow> (\<exists>r \<in> set tbl. key r = key row)"
    by (simp add: list_ex_iff)
  also have "\<dots> \<longleftrightarrow> key row \<in> key ` set tbl"
    by (metis (no_types) image_iff)
  finally show ?thesis .
qed

lemma save_merojob_data_insert_all:
  "save_merojob_data jobs_list ts tbl =
     Inr (insert_all merojob_pk (map (\<lambda>job. merojob_values job ts) jobs_list) tbl)"
  by (induction jobs_list arbitrary: tbl) (simp_all add: insert_all_Nil insert_all_Cons insert_or_ignore_Inr)

lemma save_kumari_data_insert_all:
  "save_kumari_data jobs_dict ts tbl =
     Inr (insert_all kumari_pk (map (\<lambda>(job_id, job). kumari_values job_id job ts) jobs_dict) tbl)"
  by (induction jobs_dict arbitrary: tbl)
     (auto simp: insert_all_Nil insert_all_Cons insert_or_ignore_Inr)

lemma insert_all_prefix: "prefix tbl (insert_all key rows tbl)"
proof (induction rows arbitrary: tbl)
  case Nil
  then show ?case by (simp add: insert_all_Nil)
next
  case (Cons row rows)
  have "prefix tbl (if list_ex (\<lambda>r. pk_collides (key r) (key row)) tbl then tbl else tbl @ [row])"
    by simp
  from prefix_order.trans [OF this Cons.IH] show ?case by (simp only: insert_all_Cons)
qed

lemma insert_all_noop:
  "\<forall>row \<in> set rows. fst (key row) \<noteq> None \<and> snd (key row) \<noteq> None \<and> key row \<in> key ` set tbl
     \<Longrightarrow> insert_all key rows tbl = tbl"
  by (induction rows) (simp_all add: insert_all_Nil insert_all_Cons collides_iff)

lemma insert_all_keys:
  "\<forall>row \<in> set rows. fst (key row) \<noteq> None \<and> snd (key row) \<noteq> None
     \<Longrightarrow> key ` set (insert_all key rows tbl) = key ` set tbl \<union> key ` set rows"
proof (induction rows arbitrary: tbl)
  case Nil
  then show ?case by (simp add: insert_all_Nil)
next
  case (Cons row rows)
  then have full: "fst (key row) \<noteq> None \<and> snd (key row) \<noteq> None"
    and rest: "\<forall>row \<in> set rows. fst (key row) \<noteq> None \<and> snd (key row) \<noteq> None"
    by simp_all
  show ?case
    unfolding insert_all_Cons Cons.IH [OF rest] collides_iff [where key = key and row = row, OF full]
    by auto
qed

lemma insert_all_distinct:
  "\<forall>row \<in> set rows. fst (key row) \<noteq> None \<and> snd (key row) \<noteq> None
     \<Longrightarrow> distinct (map key tbl) \<Longrightarrow> distinct (map key (insert_all key rows tbl))"
proof (induction rows arbitrary: tbl)
  case Nil
  then show ?case by (simp add: insert_all_Nil)
next
  case (Cons row rows)
  then have full: "fst (key row) \<noteq> None \<and> snd (key row) \<noteq> None"
    and rest: "\<forall>row \<in> set rows. fst (key row) \<noteq> None \<and> snd (key row) \<noteq> None"
    by simp_all
  have "distinct (map key (if key row \<in> key ` set tbl then tbl else tbl @ [row]))"
    using Cons.prems(2) by simp
  from Cons.IH [OF rest this] show ?case
    unfolding insert_all_Cons collides_iff [where key = key and row = row, OF full] .
qed

lemma insert_all_idem:
  assumes "\<forall>row \<in> set rows. fst (key row) \<noteq> None \<and> snd (key row) \<noteq> None"
  shows "insert_all key rows (insert_all key rows tbl) = insert_all key rows tbl"
  using assms by (intro insert_all_noop) (simp add: insert_all_keys)

lemma count_one:
  "distinct (map key xs) \<Longrightarrow> k \<in> key ` set xs \<Longrightarrow> length (filter (\<lambda>r. key r = k) xs) = 1"
proof (induction xs)
  case Nil
  then show ?case by simp
next
  case (Cons x xs)
  show ?case
  proof (cases "key x = k")
    case True
    with Cons.prems have "k \<notin> key ` set xs" by simp
    then have "\<forall>r \<in> set xs. key r \<noteq> k" by (metis (no_types) image_iff)
    then have "filter (\<lambda>r. key r = k) xs = []" by (simp add: filter_empty_conv)
    with True show ?thesis by simp
  next
    case False
    with Cons show ?thesis by auto
  qed
qed

lemma insert_all_properties:
  assumes full: "\<forall>row \<in> set rows. fst (key row) \<noteq> None \<and> snd (key row) \<noteq> None"
  shows "prefix tbl (insert_all key rows tbl)
   \<and> insert_all key rows (insert_all key rows tbl) = insert_all key rows tbl
   \<and> (\<forall>row \<in> set rows. key row \<in> key ` set (insert_all key rows tbl))
   \<and> (distinct (map key tbl) \<longrightarrow> distinct (map key (insert_all key rows tbl))
         \<and> (\<forall>row \<in> set rows.
               length (filter (\<lambda>r. key r = key row) (insert_all key rows tbl)) = 1))
   \<and> ((\<forall>row \<in> set rows. key row \<in> key ` set tbl) \<longrightarrow> insert_all key rows tbl = tbl)"
proof (intro conjI impI ballI)
  show "prefix tbl (insert_all key rows tbl)" by (rule insert_all_prefix)
  show "insert_all key rows (insert_all key rows tbl) = insert_all key rows tbl"
    by (rule insert_all_idem [OF full])
  show stored: "key row \<in> key ` set (insert_all key rows tbl)" if "row \<in> set rows" for row
    using that by (simp add: insert_all_keys [OF full])
  show d: "distinct (map key (insert_all key rows tbl))" if "distinct (map key tbl)"
    using that by (rule insert_all_distinct [OF full])
  show "length (filter (\<lambda>r. key r = key row) (insert_all key rows tbl)) = 1"
    if "distinct (map key tbl)" and "row \<in> set rows" for row
    by (rule count_one [OF d [OF that(1)] stored [OF that(2)]])
  show "insert_all key rows tbl = tbl" if "\<forall>row \<in> set rows. key row \<in> key ` set tbl"
    using that full by (intro insert_all_noop) blast
qed

lemma merojob_rows_full:
  "\<forall>row \<in> set (map (\<lambda>job. merojob_values job ts) jobs_list).
      fst (merojob_pk row) \<noteq> None \<and> snd (merojob_pk row) \<noteq> None"
  by (simp add: merojob_pk_def merojob_values_def)

lemma kumari_rows_full:
  "\<forall>row \<in> set (map (\<lambda>(job_id, job). kumari_values job_id job ts) jobs_dict).
      fst (kumari_pk row) \<noteq> None \<and> snd (kumari_pk row) \<noteq> None"
  by (auto simp: kumari_pk_def kumari_values_def)

lemma save_merojob_data_properties:
  "\<exists>tbl'. save_merojob_data jobs_list ts tbl = Inr tbl'
      \<and> prefix tbl tbl'
      \<and> save_merojob_data jobs_list ts tbl' = Inr tbl'
      \<and> (\<forall>job \<in> set jobs_list. merojob_pk (merojob_values job ts) \<in> merojob_pk ` set tbl')
      \<and> (distinct (map merojob_pk tbl) \<longrightarrow>
            distinct (map merojob_pk tbl')
            \<and> (\<forall>job \<in> set jobs_list.
                  length (filter (\<lambda>r. merojob_pk r = merojob_pk (merojob_values job ts)) tbl') = 1))
      \<and> ((\<forall>job \<in> set jobs_list. merojob_pk (merojob_values job ts) \<in> merojob_pk ` set tbl)
            \<longrightarrow> tbl' = tbl)"
  using insert_all_properties [where key = merojob_pk and tbl = tbl
      and rows = "map (\<lambda>job. merojob_values job ts) jobs_list", OF merojob_rows_full]
  by (simp add: save_merojob_data_insert_all)

lemma save_kumari_data_properties:
  "\<exists>tbl'. save_kumari_data jobs_dict ts tbl = Inr tbl'
      \<and> prefix tbl tbl'
      \<and> save_kumari_data jobs_dict ts tbl' = Inr tbl'
      \<and> (\<forall>(job_id, job) \<in> set jobs_dict.
            kumari_pk (kumari_values job_id job ts) \<in> kumari_pk ` set tbl')
      \<and> (distinct (map kumari_pk tbl) \<longrightarrow>
            distinct (map kumari_pk tbl')
            \<and> (\<forall>(job_id, job) \<in> set jobs_dict.
                  length (filter (\<lambda>r. kumari_pk r = kumari_pk (kumari_values job_id job ts)) tbl') = 1))
      \<and> ((\<forall>(job_id, job) \<in> set jobs_dict.
              kumari_pk (kumari_values job_id job ts) \<in> kumari_pk ` set tbl)
            \<longrightarrow> tbl' = tbl)"
  using insert_all_properties [where key = kumari_pk and tbl = tbl
      and rows = "map (\<lambda>(job_id, job). kumari_values job_id job ts) jobs_dict", OF kumari_rows_full]
  by (simp add: save_kumari_data_insert_all case_prod_unfold)

text \<open>
  Claim C9. Saving a batch raises nothing and returns a table that begins with the
  stored rows, unchanged and in place; it holds the key of every record of the batch;
  saving the same batch again with the same timestamp changes nothing; a table whose
  keys were distinct keeps distinct keys, so it holds exactly one row for the key of
  each record of the batch; and when every key of the batch is already stored, the
  table is left as it was. This holds for both raw tables.
\<close>

theorem save_insert_if_absent:
  "(\<exists>tbl'. save_merojob_data jobs_list ts tbl = Inr tbl'
      \<and> prefix tbl tbl'
      \<and> save_merojob_data jobs_list ts tbl' = Inr tbl'
      \<and> (\<forall>job \<in> set jobs_list. merojob_pk (merojob_values job ts) \<in> merojob_pk ` set tbl')
      \<and> (distinct (map merojob_pk tbl) \<longrightarrow>
            distinct (map merojob_pk tbl')
            \<and> (\<forall>job \<in> set jobs_list.
                  length (filter (\<lambda>r. merojob_pk r = merojob_pk (merojob_values job ts)) tbl') = 1))
      \<and> ((\<forall>job \<in> set jobs_list. merojob_pk (merojob_values job ts) \<in> merojob_pk ` set tbl)
            \<longrightarrow> tbl' = tbl))
   \<and> (\<exists>ktbl'. save_kumari_data jobs_dict ts ktbl = Inr ktbl'
      \<and> prefix ktbl ktbl'
      \<and> save_kumari_data jobs_dict ts ktbl' = Inr ktbl'
      \<and> (\<forall>(job_id, job) \<in> set jobs_dict.
            kumari_pk (kumari_values job_id job ts) \<in> kumari_pk ` set ktbl')
      \<and> (distinct (map kumari_pk ktbl) \<longrightarrow>
            distinct (map kumari_pk ktbl')
            \<and> (\<forall>(job_id, job) \<in> set jobs_dict.
                  length (filter (\<lambda>r. kumari_pk r = kumari_pk (kumari_values job_id job ts)) ktbl') = 1))
      \<and> ((\<forall>(job_id, job) \<in> set jobs_dict.
              kumari_pk (kumari_values job_id job ts) \<in> kumari_pk ` set ktbl)
            \<longrightarrow> ktbl' = ktbl))"
  using save_merojob_data_properties [of jobs_list ts tbl]
    save_kumari_data_properties [of jobs_dict ts ktbl]
  by (rule conjI)

text \<open>The theorem on a table that already holds the one record of the batch, for each of
  the two tables: the second save changes nothing.\<close>

theorem save_insert_if_absent_witness:
  "distinct (map merojob_pk
      [merojob_values [''id'' \<mapsto> Some ''42'', ''title'' \<mapsto> Some ''Dev''] ''2026-01-05T09:30:00''])
   \<and> save_merojob_data [[''id'' \<mapsto> Some ''42'', ''title'' \<mapsto> Some ''Dev'']] ''2026-01-05T09:30:00''
        [merojob_values [''id'' \<mapsto> Some ''42'', ''title'' \<mapsto> Some ''Dev''] ''2026-01-05T09:30:00'']
       = Inr [merojob_values [''id'' \<mapsto> Some ''42'', ''title'' \<mapsto> Some ''Dev''] ''2026-01-05T09:30:00'']
   \<and> length (filter (\<lambda>r. merojob_pk r = (Some ''42'', Some ''2026-01-05T09:30:00''))
        [merojob_values [''id'' \<mapsto> Some ''42'', ''title'' \<mapsto> Some ''Dev''] ''2026-01-05T09:30:00'']) = 1
   \<and> distinct (map kumari_pk
      [kumari_values ''7'' (new_record ''Dev'' ''Acme'' ''/job/7'' ''N/A'' ''N/A'') ''2026-01-05T09:31:00''])
   \<and> save_kumari_data [(''7'', new_record ''Dev'' ''Acme'' ''/job/7'' ''N/A'' ''N/A'')]
        ''2026-01-05T09:31:00''
        [kumari_values ''7'' (new_record ''Dev'' ''Acme'' ''/job/7'' ''N/A'' ''N/A'') ''2026-01-05T09:31:00'']
       = Inr [kumari_values ''7'' (new_record ''Dev'' ''Acme'' ''/job/7'' ''N/A'' ''N/A'')
                ''2026-01-05T09:31:00'']
   \<and> length (filter (\<lambda>r. kumari_pk r = (Some ''7'', Some ''2026-01-05T09:31:00''))
        [kumari_values ''7'' (new_record ''Dev'' ''Acme'' ''/job/7'' ''N/A'' ''N/A'')
           ''2026-01-05T09:31:00'']) = 1"
proof -
  let ?J = "[''id'' \<mapsto> Some ''42'', ''title'' \<mapsto> Some ''Dev''] :: mero_job"
  let ?ts = "''2026-01-05T09:30:00''" and ?kts = "''2026-01-05T09:31:00''"
  let ?K = "new_record ''Dev'' ''Acme'' ''/job/7'' ''N/A'' ''N/A''"
  let ?tbl = "[merojob_values ?J ?ts]" and ?ktbl = "[kumari_values ''7'' ?K ?kts]"
  have mkey: "merojob_pk (merojob_values ?J ?ts) = (Some ''42'', Some ?ts)"
    by (simp add: merojob_pk_def merojob_values_def dict_get_def py_str_def)
  have kkey: "kumari_pk (kumari_values ''7'' ?K ?kts) = (Some ''7'', Some ?kts)"
    by (simp add: kumari_pk_def kumari_values_def)
  have md: "distinct (map merojob_pk ?tbl)" and kd: "distinct (map kumari_pk ?ktbl)"
    by simp_all
  have mstored: "\<forall>job \<in> set [?J]. merojob_pk (merojob_values job ?ts) \<in> merojob_pk ` set ?tbl"
    by simp
  have kstored: "\<forall>(job_id, job) \<in> set [(''7'', ?K)].
      kumari_pk (kumari_values job_id job ?kts) \<in> kumari_pk ` set ?ktbl"
    by simp
  from save_insert_if_absent [where jobs_list = "[?J]" and ts = ?ts and tbl = ?tbl
      and jobs_dict = "[]" and ktbl = "[]", THEN conjunct1]
  obtain tbl' where m1: "save_merojob_data [?J] ?ts ?tbl = Inr tbl'"
    and m2: "distinct (map merojob_pk ?tbl) \<longrightarrow>
            distinct (map merojob_pk tbl')
            \<and> (\<forall>job \<in> set [?J].
                  length (filter (\<lambda>r. merojob_pk r = merojob_pk (merojob_values job ?ts)) tbl') = 1)"
    and m3: "(\<forall>job \<in> set [?J]. merojob_pk (merojob_values job ?ts) \<in> merojob_pk ` set ?tbl)
            \<longrightarrow> tbl' = ?tbl"
    by blast
  from m3 mstored have mt: "tbl' = ?tbl" by blast
  from m2 md have "length (filter (\<lambda>r. merojob_pk r = merojob_pk (merojob_values ?J ?ts)) tbl') = 1"
    by simp
  then have mcount: "length (filter (\<lambda>r. merojob_pk r = (Some ''42'', Some ?ts)) ?tbl) = 1"
    unfolding mt mkey .
  from save_insert_if_absent [where jobs_list = "[]" and ts = ?kts and tbl = "[]"
      and jobs_dict = "[(''7'', ?K)]" and ktbl = ?ktbl, THEN conjunct2]
  obtain ktbl' where k1: "save_kumari_data [(''7'', ?K)] ?kts ?ktbl = Inr ktbl'"
    and k2: "distinct (map kumari_pk ?ktbl) \<longrightarrow>
            distinct (map kumari_pk ktbl')
            \<and> (\<forall>(job_id, job) \<in> set [(''7'', ?K)].
                  length (filter (\<lambda>r. kumari_pk r = kumari_pk (kumari_values job_id job ?kts)) ktbl') = 1)"
    and k3: "(\<forall>(job_id, job) \<in> set [(''7'', ?K)].
              kumari_pk (kumari_values job_id job ?kts) \<in> kumari_pk ` set ?ktbl)
            \<longrightarrow> ktbl' = ?ktbl"
    by blast
  from k3 kstored have kt: "ktbl' = ?ktbl" by blast
  from k2 kd have "length (filter (\<lambda>r. kumari_pk r = kumari_pk (kumari_values ''7'' ?K ?kts)) ktbl') = 1"
    by simp
  then have kcount: "length (filter (\<lambda>r. kumari_pk r = (Some ''7'', Some ?kts)) ?ktbl) = 1"
    unfolding kt kkey .
  from md m1 [unfolded mt] mcount kd k1 [unfolded kt] kcount show ?thesis
    by (intro conjI)
qed

section \<open>Failing stages\<close>

lemma stage_count_cases:
  "r \<noteq> Inl KeyboardInterrupt \<Longrightarrow> stage_count r = Inr (count_of r)"
  by (cases r) (auto simp: stage_count_def count_of_def is_Exception_def)

lemma scrape_kumari_jobs_handles:
  assumes "scrape_kumari_try ev w = (Inl e, w')" and "is_Exception e"
  shows "scrape_kumari_jobs ev w = (Inr 0, w')"
  using assms by (simp add: scrape_kumari_jobs_def)

lemma scrape_kumari_try_tables:
  "scrape_kumari_try ev w = (Inl e, w') \<Longrightarrow>
     kumari_raw w' = kumari_raw w \<and> merojob_raw w' = merojob_raw w \<and> jobs_clean w' = jobs_clean w"
  by (auto simp: scrape_kumari_try_def Let_def split: http.splits sum.splits prod.splits)

lemma scrape_kumari_listing_fails:
  assumes "net ev (requests_made w) kumari_url = Raises e" and "is_Exception e"
  shows "scrape_kumari_jobs ev w = (Inr 0, w\<lparr>requests_made := Suc (requests_made w)\<rparr>)"
proof -
  have "scrape_kumari_try ev w = (Inl e, w\<lparr>requests_made := Suc (requests_made w)\<rparr>)"
    using assms(1) by (simp add: scrape_kumari_try_def Let_def)
  from scrape_kumari_jobs_handles [OF this assms(2)] show ?thesis .
qed

lemma scrape_kumari_jobs_never_raises:
  "fst (scrape_kumari_jobs ev w) = Inl e \<Longrightarrow> \<not> is_Exception e"
  by (auto simp: scrape_kumari_jobs_def is_Exception_def split: prod.splits sum.splits if_splits)

lemma full_pipeline_stages:
  assumes "scrape_jobs ev w = Some (r1, w1)" and "scrape_kumari_jobs ev w1 = (r2, w2)"
    and "run_clean ev w2 = (r3, w3)"
    and "r1 \<noteq> Inl KeyboardInterrupt" and "r2 \<noteq> Inl KeyboardInterrupt"
  shows "full_pipeline ev w =
     Some (Inr \<lparr> mero_count = count_of r1, kumari_count = count_of r2, clean_count = count_of r3 \<rparr>,
           w3)"
proof -
  have "\<exists>n. r3 = Inr n"
    using assms(3) by (auto simp: run_clean_def clean_and_merge_frame)
  then have "r3 \<noteq> Inl KeyboardInterrupt" by auto
  then show ?thesis
    using assms
    by (simp add: full_pipeline_def stage_count_cases)
qed

lemma flaky_pages:
  "scrape_pages flaky_network (Some merojob_url) [] 0 =
     Some (Inr [[''id'' \<mapsto> Some ''42'', ''title'' \<mapsto> Some ''Dev'']], 2)"
  apply (subst scrape_pages.simps)
  apply (simp add: merojob_url_def fetch_page_def flaky_network_def raise_for_status_def
      response_json_def)
  apply (subst scrape_pages.simps)
  apply (simp add: fetch_page_def flaky_network_def is_Exception_def)
  done

lemma flaky_scrape_jobs:
  "scrape_jobs (example_env flaky_network) empty_world =
     Some (Inr 1, empty_world\<lparr>requests_made := 2,
                    merojob_raw := [merojob_values [''id'' \<mapsto> Some ''42'', ''title'' \<mapsto> Some ''Dev'']
                                      ''2026-01-05T09:30:00'']\<rparr>)"
  by (simp add: scrape_jobs_def example_env_def empty_world_def flaky_pages
        insert_or_ignore_def)

lemma flaky_retry:
  "fetch_with_retry flaky_network ''/job/7'' 3 3 = (Inr None, 6)"
  by (simp add: numeral_3_eq_3 flaky_network_def)

lemma flaky_cards:
  "process_cards [\<lparr> data_jobid = ''7'', h5 = Some (''Developer'', Some (Some ''/job/7'')),
                     h6 = Some ''Acme'', job_info = None, featured_job_company_name = None,
                     featured_job_company_logo_alt = None,
                     description = Some [''2 Years''] \<rparr>] []
     = Inr [(''7'', new_record ''Developer'' ''Acme'' ''/job/7'' ''N/A'' ''2 Years'')]"
proof -
  have "scan_description (Some [''2 Years'']) = (''N/A'', ''2 Years'')" by code_simp
  then show ?thesis by (simp add: process_card_def card_fields_def)
qed

lemma flaky_deep:
  "deep_scrape flaky_network
     [(''7'', new_record ''Developer'' ''Acme'' ''/job/7'' ''N/A'' ''2 Years'')] 3
     = (Inr [(''7'', new_record ''Developer'' ''Acme'' ''/job/7'' ''N/A'' ''2 Years'')], 6)"
  by (simp add: flaky_retry new_record_def)

lemma flaky_scrape_kumari:
  "scrape_kumari_jobs (example_env flaky_network)
     (empty_world\<lparr>requests_made := 2,
                   merojob_raw := [merojob_values [''id'' \<mapsto> Some ''42'', ''title'' \<mapsto> Some ''Dev'']
                                     ''2026-01-05T09:30:00'']\<rparr>)
   = (Inr 1,
      empty_world\<lparr>requests_made := 6,
                   merojob_raw := [merojob_values [''id'' \<mapsto> Some ''42'', ''title'' \<mapsto> Some ''Dev'']
                                     ''2026-01-05T09:30:00''],
                   kumari_raw := [kumari_values ''7''
                                    (new_record ''Developer'' ''Acme'' ''/job/7'' ''N/A'' ''2 Years'')
                                    ''2026-01-05T09:30:00'']\<rparr>)"
proof -
  have listing: "flaky_network 2 kumari_url =
      Response 200 (Html \<lparr> job_cards =
                               [\<lparr> data_jobid = ''7'',
                                  h5 = Some (''Developer'', Some (Some ''/job/7'')),
                                  h6 = Some ''Acme'', job_info = None,
                                  featured_job_company_name = None,
                                  featured_job_company_logo_alt = None,
                                  description = Some [''2 Years''] \<rparr>],
                             info_cards = [], detail_box = None \<rparr>)"
    by (simp add: flaky_network_def)
  show ?thesis
    by (simp add: scrape_kumari_jobs_def scrape_kumari_try_def example_env_def empty_world_def
          listing raise_for_status_def soup_def flaky_cards flaky_deep
          insert_or_ignore_def Let_def
          del: process_cards.simps deep_scrape.simps fetch_with_retry.simps)
qed

lemma run_clean_count:
  "count_of (fst (run_clean ev w)) =
     length (drop_duplicates subset_key
               (filter has_title (mero_clean (pandas_lib ev) (merojob_raw w)
                                   @ kumari_frame (pandas_lib ev) (kumari_raw w))))"
  by (simp add: run_clean_def clean_and_merge_frame quality_steps_def cap_rows count_of_def)

lemma flaky_titles:
  "title (mero_clean_row pd (merojob_values [''id'' \<mapsto> Some ''42'', ''title'' \<mapsto> Some ''Dev''] ts))
     = Some ''Dev''"
  "title (kumari_clean_row pd
            (kumari_values ''7'' (new_record ''Developer'' ''Acme'' ''/job/7'' ''N/A'' ''2 Years'') ts) a b)
     = Some ''Developer''"
proof -
  have "py_title (py_strip ''Dev'') = ''Dev''" "py_title (py_strip ''Developer'') = ''Developer''"
    by code_simp+
  then show
    "title (mero_clean_row pd (merojob_values [''id'' \<mapsto> Some ''42'', ''title'' \<mapsto> Some ''Dev''] ts))
       = Some ''Dev''"
    "title (kumari_clean_row pd
            (kumari_values ''7'' (new_record ''Developer'' ''Acme'' ''/job/7'' ''N/A'' ''2 Years'') ts) a b)
       = Some ''Developer''"
    by (simp_all add: mero_clean_row_def kumari_clean_row_def merojob_values_def kumari_values_def
          new_record_def dict_get_def str_title_def str_strip_def)
qed

lemma flaky_clean_count:
  "count_of (fst (run_clean (example_env flaky_network)
     (empty_world\<lparr>requests_made := 6,
                   merojob_raw := [merojob_values [''id'' \<mapsto> Some ''42'', ''title'' \<mapsto> Some ''Dev'']
                                     ''2026-01-05T09:30:00''],
                   kumari_raw := [kumari_values ''7''
                                    (new_record ''Developer'' ''Acme'' ''/job/7'' ''N/A'' ''2 Years'')
                                    ''2026-01-05T09:30:00'']\<rparr>))) = 2"
proof -
  have "py_strip ''Dev'' = ''Dev''" "py_strip ''Developer'' = ''Developer''"
    by code_simp+
  then show ?thesis
    unfolding run_clean_count
    by (simp add: example_env_def empty_world_def mero_clean_def kumari_frame_def
          drop_duplicates_def has_title_def subset_key_def flaky_titles)
qed

text \<open>
  Claim C10 as stated fails: a network error that an inner handler absorbs does not
  zero the count. On the first example network the second MeroJob page and every
  KumariJob detail request raise a network error, and the two stages report the one job
  each has gathered.
\<close>

theorem network_error_count_counterexample:
  "flaky_network 1 ''https://api.merojob.com/api/v1/jobs/?page=2'' = Raises RequestException
   \<and> flaky_network 3 ''/job/7'' = Raises RequestException
   \<and> is_Exception RequestException
   \<and> map_option fst (scrape_jobs (example_env flaky_network) empty_world) = Some (Inr 1)
   \<and> map_option fst (full_pipeline (example_env flaky_network) empty_world)
       = Some (Inr \<lparr> mero_count = 1, kumari_count = 1, clean_count = 2 \<rparr>)"
proof -
  let ?ev = "example_env flaky_network"
  let ?w1 = "empty_world\<lparr>requests_made := 2,
                   merojob_raw := [merojob_values [''id'' \<mapsto> Some ''42'', ''title'' \<mapsto> Some ''Dev'']
                                     ''2026-01-05T09:30:00'']\<rparr>"
  let ?w2 = "empty_world\<lparr>requests_made := 6,
                   merojob_raw := [merojob_values [''id'' \<mapsto> Some ''42'', ''title'' \<mapsto> Some ''Dev'']
                                     ''2026-01-05T09:30:00''],
                   kumari_raw := [kumari_values ''7''
                                    (new_record ''Developer'' ''Acme'' ''/job/7'' ''N/A'' ''2 Years'')
                                    ''2026-01-05T09:30:00'']\<rparr>"
  have clean: "run_clean ?ev ?w2 = (fst (run_clean ?ev ?w2), snd (run_clean ?ev ?w2))" by simp
  have "full_pipeline ?ev empty_world =
      Some (Inr \<lparr> mero_count = count_of (Inr 1), kumari_count = count_of (Inr 1),
                   clean_count = count_of (fst (run_clean ?ev ?w2)) \<rparr>, snd (run_clean ?ev ?w2))"
    by (rule full_pipeline_stages [OF flaky_scrape_jobs flaky_scrape_kumari clean]) simp_all
  then have "map_option fst (full_pipeline ?ev empty_world)
       = Some (Inr \<lparr> mero_count = 1, kumari_count = 1, clean_count = 2 \<rparr>)"
    by (simp add: flaky_clean_count) (simp add: count_of_def)
  then show ?thesis
    by (simp add: flaky_scrape_jobs) (simp add: flaky_network_def is_Exception_def)
qed

text \<open>
  Claim C10, amended. Whenever an \<open>Exception\<close> reaches the outer handler of
  \<open>scrape_kumari_jobs\<close>, as a network error on the listing page does, the function
  returns 0 instead of raising and stores nothing; it never raises an \<open>Exception\<close>.
  Whenever a stage of the pipeline that has returned raised an \<open>Exception\<close>, the
  pipeline counts 0 for it, and in every case runs the remaining stages on the state the
  stage left and reports their counts. A network error absorbed inside a stage (a
  MeroJob result page, a KumariJob detail page) is not covered.
\<close>

theorem stage_failure_counts_zero:
  "(scrape_kumari_try ev w = (Inl e, w') \<and> is_Exception e \<longrightarrow>
      scrape_kumari_jobs ev w = (Inr 0, w') \<and> kumari_raw w' = kumari_raw w)
   \<and> (net ev (requests_made w) kumari_url = Raises e \<and> is_Exception e \<longrightarrow>
      scrape_kumari_jobs ev w = (Inr 0, w\<lparr>requests_made := Suc (requests_made w)\<rparr>))
   \<and> (fst (scrape_kumari_jobs ev w) = Inl e \<longrightarrow> \<not> is_Exception e)
   \<and> (scrape_jobs ev w = Some (r1, w1) \<and> scrape_kumari_jobs ev w1 = (r2, w2)
        \<and> run_clean ev w2 = (r3, w3)
        \<and> r1 \<noteq> Inl KeyboardInterrupt \<and> r2 \<noteq> Inl KeyboardInterrupt \<longrightarrow>
      full_pipeline ev w =
        Some (Inr \<lparr> mero_count = count_of r1, kumari_count = count_of r2,
                     clean_count = count_of r3 \<rparr>, w3))
   \<and> count_of (Inl e) = 0"
proof (intro conjI impI)
  assume a: "scrape_kumari_try ev w = (Inl e, w') \<and> is_Exception e"
  then show "scrape_kumari_jobs ev w = (Inr 0, w')"
    using scrape_kumari_jobs_handles [of ev w e w'] by blast
  from a show "kumari_raw w' = kumari_raw w"
    using scrape_kumari_try_tables [of ev w e w'] by blast
next
  assume "net ev (requests_made w) kumari_url = Raises e \<and> is_Exception e"
  then show "scrape_kumari_jobs ev w = (Inr 0, w\<lparr>requests_made := Suc (requests_made w)\<rparr>)"
    using scrape_kumari_listing_fails [of ev w e] by blast
next
  assume "fst (scrape_kumari_jobs ev w) = Inl e"
  then show "\<not> is_Exception e" by (rule scrape_kumari_jobs_never_raises)
next
  assume "scrape_jobs ev w = Some (r1, w1) \<and> scrape_kumari_jobs ev w1 = (r2, w2)
        \<and> run_clean ev w2 = (r3, w3)
        \<and> r1 \<noteq> Inl KeyboardInterrupt \<and> r2 \<noteq> Inl KeyboardInterrupt"
  then show "full_pipeline ev w =
        Some (Inr \<lparr> mero_count = count_of r1, kumari_count = count_of r2,
                     clean_count = count_of r3 \<rparr>, w3)"
    using full_pipeline_stages [of ev w r1 w1 r2 w2 r3 w3] by blast
next
  show "count_of (Inl e) = 0" by (simp add: count_of_def)
qed

lemma failing_scrape_jobs:
  "scrape_jobs (example_env failing_network) empty_world =
     Some (Inl AttributeError, empty_world\<lparr>requests_made := 1\<rparr>)"
proof -
  have "scrape_pages failing_network (Some merojob_url) [] 0 = Some (Inl AttributeError, 1)"
    apply (subst scrape_pages.simps)
    apply (simp add: merojob_url_def fetch_page_def failing_network_def raise_for_status_def
        response_json_def)
    done
  then show ?thesis
    by (simp add: scrape_jobs_def example_env_def empty_world_def)
qed

lemma failing_scrape_kumari_try:
  "scrape_kumari_try (example_env failing_network) (empty_world\<lparr>requests_made := 1\<rparr>) =
     (Inl RequestException, empty_world\<lparr>requests_made := 2\<rparr>)"
  by (simp add: scrape_kumari_try_def example_env_def empty_world_def failing_network_def Let_def)

lemma failing_run_clean:
  "run_clean (example_env failing_network) (empty_world\<lparr>requests_made := 2\<rparr>) =
     (Inr 0, empty_world\<lparr>requests_made := 2\<rparr>)"
  by (simp add: run_clean_def empty_world_def clean_and_merge_def)

text \<open>The theorem on the second example network: the MeroJob stage raises, the KumariJob
  listing fails, both count 0, and the third stage runs on the empty tables.\<close>

theorem stage_failure_counts_zero_witness:
  "scrape_jobs (example_env failing_network) empty_world =
     Some (Inl AttributeError, empty_world\<lparr>requests_made := 1\<rparr>)
   \<and> is_Exception AttributeError \<and> is_Exception RequestException
   \<and> net (example_env failing_network) 1 kumari_url = Raises RequestException
   \<and> scrape_kumari_try (example_env failing_network) (empty_world\<lparr>requests_made := 1\<rparr>) =
       (Inl RequestException, empty_world\<lparr>requests_made := 2\<rparr>)
   \<and> scrape_kumari_jobs (example_env failing_network) (empty_world\<lparr>requests_made := 1\<rparr>) =
       (Inr 0, empty_world\<lparr>requests_made := 2\<rparr>)
   \<and> full_pipeline (example_env failing_network) empty_world =
       Some (Inr \<lparr> mero_count = 0, kumari_count = 0, clean_count = 0 \<rparr>,
             empty_world\<lparr>requests_made := 2\<rparr>)"
proof -
  let ?ev = "example_env failing_network"
  let ?w1 = "empty_world\<lparr>requests_made := 1\<rparr>" and ?w2 = "empty_world\<lparr>requests_made := 2\<rparr>"
  have ex: "is_Exception AttributeError" "is_Exception RequestException"
    by (simp_all add: is_Exception_def)
  have listing: "net ?ev 1 kumari_url = Raises RequestException"
    by (simp add: example_env_def failing_network_def)
  note inst = stage_failure_counts_zero [where ev = ?ev and w = ?w1 and e = RequestException
      and w' = ?w2]
  have kumari: "scrape_kumari_jobs ?ev ?w1 = (Inr 0, ?w2)"
    using inst [THEN conjunct1, THEN mp, OF conjI [OF failing_scrape_kumari_try ex(2)]]
    by (rule conjunct1)
  have "full_pipeline ?ev empty_world =
        Some (Inr \<lparr> mero_count = count_of (Inl AttributeError), kumari_count = count_of (Inr 0),
                     clean_count = count_of (Inr 0) \<rparr>, ?w2)"
    using stage_failure_counts_zero [where ev = ?ev and w = empty_world
        and ?r1.0 = "Inl AttributeError" and ?w1.0 = ?w1 and ?r2.0 = "Inr 0" and ?w2.0 = ?w2
        and ?r3.0 = "Inr 0" and ?w3.0 = ?w2, THEN conjunct2, THEN conjunct2, THEN conjunct2,
        THEN conjunct1, THEN mp]
      failing_scrape_jobs kumari failing_run_clean
    by simp
  then have pipeline: "full_pipeline ?ev empty_world =
        Some (Inr \<lparr> mero_count = 0, kumari_count = 0, clean_count = 0 \<rparr>, ?w2)"
    by (simp add: count_of_def)
  from failing_scrape_jobs ex listing failing_scrape_kumari_try kumari pipeline
  show ?thesis by (intro conjI)
qed

end
